theory Spec2Isabelle
  imports Complex_Main "HOL-Library.Sublist"
begin

section \<open>JavaScript values\<close>

text \<open>
  The monitor handles page data: whatever a page pushes into \<^verbatim>\<open>_mtm\<close> or
  \<^verbatim>\<open>dataLayer\<close>. The value universe is JSON-like data plus \<^verbatim>\<open>undefined\<close>:
  primitives, arrays and plain objects (own enumerable string-keyed properties, in
  enumeration order). Functions, symbols, getters and proxies written by the page are
  outside this universe, and the built-in prototypes are the engine's own (no script has
  replaced their members).

  A member read can leave the data: \<^verbatim>\<open>({}).constructor\<close> is the function
  \<^verbatim>\<open>Object\<close>, found on the prototype. \<open>Builtin n\<close> is such an object of the
  engine, a function or a prototype object, known by a name; page data holds none, they
  arise only as the value of a member read.

  A number is an IEEE double. Finite doubles are rationals, so \<open>Fin r\<close> covers every
  finite double; \<open>+0\<close> and \<open>-0\<close> are identified (no operation used by the monitor
  tells them apart).
\<close>

datatype jsnum = NaN | PosInf | NegInf | Fin rat

datatype jsval =
    Undefined
  | Null
  | Bool bool
  | Num jsnum
  | Str string
  | Arr "jsval list"
  | Obj "(string \<times> jsval) list"
  | Builtin string

datatype js_error = TypeError | SyntaxError | RangeError

text \<open>
  What the monitor takes from the JavaScript engine and cannot be written down exactly
  here is a parameter: the decimal rendering of numbers that are not small integers, the
  parsing of a string as a number, the regular-expression engine (a compiled pattern is
  its \<^verbatim>\<open>test\<close> function; \<open>None\<close> is the \<^verbatim>\<open>SyntaxError\<close> of an invalid
  pattern), \<^verbatim>\<open>JSON.stringify\<close>, and the built-in objects: \<open>inherited_member v k\<close>
  is the value of \<^verbatim>\<open>v[k]\<close> when \<open>k\<close> is not an own property of the data value
  \<open>v\<close> (the member found on the prototype chain, \<^verbatim>\<open>undefined\<close> when there is
  none) and any member of a built-in object; \<open>Builtin_toString n\<close> is the string form
  of the built-in object \<open>n\<close>, \<open>Builtin_function n\<close> whether it is a function.
\<close>

record js_runtime =
  Number_toString_other :: "jsnum \<Rightarrow> string"
  StringToNumber :: "string \<Rightarrow> jsnum"
  RegExp_compile :: "string \<Rightarrow> (string \<Rightarrow> bool) option"
  JSON_stringify :: "jsval \<Rightarrow> string"
  inherited_member :: "jsval \<Rightarrow> string \<Rightarrow> jsval"
  Builtin_toString :: "string \<Rightarrow> string"
  Builtin_function :: "string \<Rightarrow> bool"

text \<open>
  A statement after another: an exception in the first leaves the function (\<open>Inl\<close>),
  otherwise the second runs on the value.
\<close>

definition bind_err :: "js_error + 'a \<Rightarrow> ('a \<Rightarrow> js_error + 'b) \<Rightarrow> js_error + 'b" where
  "bind_err r f = (case r of Inl e \<Rightarrow> Inl e | Inr v \<Rightarrow> f v)"

subsection \<open>Truthiness, typeof, numbers\<close>

fun truthy :: "jsval \<Rightarrow> bool" where
  "truthy Undefined = False"
| "truthy Null = False"
| "truthy (Bool b) = b"
| "truthy (Num n) = (n \<noteq> NaN \<and> n \<noteq> Fin 0)"
| "truthy (Str s) = (s \<noteq> [])"
| "truthy (Arr xs) = True"
| "truthy (Obj ps) = True"
| "truthy (Builtin n) = True"

text \<open>\<^verbatim>\<open>a || b\<close>\<close>

definition js_or :: "jsval \<Rightarrow> jsval \<Rightarrow> jsval" where
  "js_or a b = (if truthy a then a else b)"

text \<open>\<^verbatim>\<open>typeof v === 'object'\<close> of a data value (true of \<^verbatim>\<open>null\<close> as well)\<close>

fun typeof_object :: "jsval \<Rightarrow> bool" where
  "typeof_object Null = True"
| "typeof_object (Arr xs) = True"
| "typeof_object (Obj ps) = True"
| "typeof_object v = False"

fun typeof_number :: "jsval \<Rightarrow> bool" where
  "typeof_number (Num n) = True"
| "typeof_number v = False"

definition isNaN :: "jsnum \<Rightarrow> bool" where
  "isNaN n = (n = NaN)"

text \<open>\<^verbatim>\<open>===\<close> on two numbers: \<^verbatim>\<open>NaN\<close> equals nothing.\<close>

definition num_strict_eq :: "jsnum \<Rightarrow> jsnum \<Rightarrow> bool" where
  "num_strict_eq a b = (a \<noteq> NaN \<and> b \<noteq> NaN \<and> a = b)"

text \<open>\<^verbatim>\<open><\<close> on two numbers: false as soon as one side is \<^verbatim>\<open>NaN\<close>.\<close>

fun num_lt :: "jsnum \<Rightarrow> jsnum \<Rightarrow> bool" where
  "num_lt NaN b = False"
| "num_lt a NaN = False"
| "num_lt PosInf b = False"
| "num_lt a NegInf = False"
| "num_lt NegInf b = True"
| "num_lt a PosInf = True"
| "num_lt (Fin x) (Fin y) = (x < y)"

text \<open>\<^verbatim>\<open>v === n\<close> for a number \<open>n\<close>: false unless \<open>v\<close> is a number.\<close>

fun strict_eq_number :: "jsval \<Rightarrow> jsnum \<Rightarrow> bool" where
  "strict_eq_number (Num a) n = num_strict_eq a n"
| "strict_eq_number v n = False"

definition num_gt :: "jsnum \<Rightarrow> jsnum \<Rightarrow> bool" where
  "num_gt a b = num_lt b a"

definition num_le :: "jsnum \<Rightarrow> jsnum \<Rightarrow> bool" where
  "num_le a b = (num_lt a b \<or> num_strict_eq a b)"

definition num_ge :: "jsnum \<Rightarrow> jsnum \<Rightarrow> bool" where
  "num_ge a b = num_le b a"

subsection \<open>Conversion to string and to number\<close>

definition digit :: "nat \<Rightarrow> char" where
  "digit d = ''0123456789'' ! d"

function show_nat :: "nat \<Rightarrow> string" where
  "show_nat n = (if n < 10 then [digit n] else show_nat (n div 10) @ [digit (n mod 10)])"
  by pat_completeness auto
termination
  by (relation "measure id") auto

declare show_nat.simps [simp del]

text \<open>
  \<^verbatim>\<open>Number::toString\<close>: an integer below \<open>10^21\<close> in absolute value is written as
  its decimal numeral; every other finite number is left to \<open>other\<close>, the runtime's
  rendering.
\<close>

definition Number_toString :: "(jsnum \<Rightarrow> string) \<Rightarrow> jsnum \<Rightarrow> string" where
  "Number_toString other n =
     (case n of
        NaN \<Rightarrow> ''NaN''
      | PosInf \<Rightarrow> ''Infinity''
      | NegInf \<Rightarrow> ''-Infinity''
      | Fin r \<Rightarrow>
          (let (p, q) = quotient_of r in
           if q = 1 \<and> \<bar>p\<bar> < 10 ^ 21
           then (if p < 0 then ''-'' else []) @ show_nat (nat \<bar>p\<bar>)
           else other n))"

fun join_with :: "string \<Rightarrow> string list \<Rightarrow> string" where
  "join_with sep [] = []"
| "join_with sep [s] = s"
| "join_with sep (s # t # ts) = s @ sep @ join_with sep (t # ts)"

text \<open>
  \<^verbatim>\<open>String(v)\<close>, which is also the conversion of \<^verbatim>\<open>${v}\<close> in a template
  literal. An array is joined with commas, \<^verbatim>\<open>null\<close> and \<^verbatim>\<open>undefined\<close>
  elements rendering as the empty string (\<open>join_elements\<close> converts the elements in
  order). A plain object is \<^verbatim>\<open>[object Object]\<close> through the inherited
  \<^verbatim>\<open>toString\<close>; when the object has an own property \<^verbatim>\<open>toString\<close>, that
  value is data and cannot be called, the inherited \<^verbatim>\<open>valueOf\<close> (or an own one,
  not callable either) gives no primitive, and the conversion throws a
  \<^verbatim>\<open>TypeError\<close>.
\<close>

fun ToString :: "js_runtime \<Rightarrow> jsval \<Rightarrow> js_error + string"
  and join_elements :: "js_runtime \<Rightarrow> jsval list \<Rightarrow> js_error + string list" where
  "ToString rt Undefined = Inr ''undefined''"
| "ToString rt Null = Inr ''null''"
| "ToString rt (Bool b) = Inr (if b then ''true'' else ''false'')"
| "ToString rt (Num n) = Inr (Number_toString (Number_toString_other rt) n)"
| "ToString rt (Str s) = Inr s"
| "ToString rt (Arr xs) =
     (case join_elements rt xs of Inl e \<Rightarrow> Inl e | Inr ss \<Rightarrow> Inr (join_with '','' ss))"
| "ToString rt (Obj ps) =
     (if map_of ps ''toString'' \<noteq> None then Inl TypeError else Inr ''[object Object]'')"
| "ToString rt (Builtin n) = Inr (Builtin_toString rt n)"
| "join_elements rt [] = Inr []"
| "join_elements rt (x # xs) =
     (case (if x = Undefined \<or> x = Null then Inr [] else ToString rt x) of
        Inl e \<Rightarrow> Inl e
      | Inr s \<Rightarrow> (case join_elements rt xs of Inl e \<Rightarrow> Inl e | Inr ss \<Rightarrow> Inr (s # ss)))"

text \<open>
  \<^verbatim>\<open>Number(v)\<close>. Arrays and objects go through their string form (their
  \<^verbatim>\<open>valueOf\<close> gives no primitive), and throw when that throws.
\<close>

fun ToNumber :: "js_runtime \<Rightarrow> jsval \<Rightarrow> js_error + jsnum" where
  "ToNumber rt Undefined = Inr NaN"
| "ToNumber rt Null = Inr (Fin 0)"
| "ToNumber rt (Bool b) = Inr (if b then Fin 1 else Fin 0)"
| "ToNumber rt (Num n) = Inr n"
| "ToNumber rt (Str s) = Inr (StringToNumber rt s)"
| "ToNumber rt v = bind_err (ToString rt v) (\<lambda>s. Inr (StringToNumber rt s))"

subsection \<open>Strings\<close>

text \<open>\<^verbatim>\<open>s.includes(t)\<close>, \<^verbatim>\<open>s.startsWith(t)\<close>, \<^verbatim>\<open>s.endsWith(t)\<close>\<close>

fun str_includes :: "string \<Rightarrow> string \<Rightarrow> bool" where
  "str_includes [] t = (t = [])"
| "str_includes (c # cs) t = (prefix t (c # cs) \<or> str_includes cs t)"

definition startsWith :: "string \<Rightarrow> string \<Rightarrow> bool" where
  "startsWith s t = prefix t s"

definition endsWith :: "string \<Rightarrow> string \<Rightarrow> bool" where
  "endsWith s t = suffix t s"

text \<open>\<^verbatim>\<open>s.replace(pat, rep)\<close> with a string pattern: the first occurrence only.\<close>

fun replace_first :: "string \<Rightarrow> string \<Rightarrow> string \<Rightarrow> string" where
  "replace_first [] pat rep = (if pat = [] then rep else [])"
| "replace_first (c # cs) pat rep =
     (if prefix pat (c # cs) then rep @ drop (length pat) (c # cs)
      else c # replace_first cs pat rep)"

text \<open>\<^verbatim>\<open>s.split('.')\<close>\<close>

fun split_dot :: "string \<Rightarrow> string list" where
  "split_dot [] = [[]]"
| "split_dot (c # cs) =
     (if c = CHR ''.'' then [] # split_dot cs
      else (case split_dot cs of [] \<Rightarrow> [[c]] | w # ws \<Rightarrow> (c # w) # ws))"

subsection \<open>Property access\<close>

text \<open>
  The own properties of a data value: those of an object; the indices and
  \<^verbatim>\<open>length\<close> of an array and of a string. \<open>js_get\<close> reads an own property and
  gives \<^verbatim>\<open>undefined\<close> when there is none; it stands for the reads the monitor makes
  under a fixed name that no built-in prototype defines (\<^verbatim>\<open>event\<close>,
  \<^verbatim>\<open>__mtm_processed\<close>, \<^verbatim>\<open>tagName\<close>, ...).
\<close>

definition index_of_key :: "string \<Rightarrow> nat \<Rightarrow> nat option" where
  "index_of_key k n = (case filter (\<lambda>i. show_nat i = k) [0..<n] of [] \<Rightarrow> None | i # _ \<Rightarrow> Some i)"

fun hasOwnProperty :: "jsval \<Rightarrow> string \<Rightarrow> bool" where
  "hasOwnProperty (Obj ps) k = (map_of ps k \<noteq> None)"
| "hasOwnProperty (Arr xs) k = (k = ''length'' \<or> index_of_key k (length xs) \<noteq> None)"
| "hasOwnProperty (Str s) k = (k = ''length'' \<or> index_of_key k (length s) \<noteq> None)"
| "hasOwnProperty v k = False"

fun js_get :: "jsval \<Rightarrow> string \<Rightarrow> jsval" where
  "js_get (Obj ps) k = (case map_of ps k of None \<Rightarrow> Undefined | Some v \<Rightarrow> v)"
| "js_get (Arr xs) k =
     (if k = ''length'' then Num (Fin (of_nat (length xs)))
      else (case index_of_key k (length xs) of None \<Rightarrow> Undefined | Some i \<Rightarrow> xs ! i))"
| "js_get (Str s) k =
     (if k = ''length'' then Num (Fin (of_nat (length s)))
      else (case index_of_key k (length s) of None \<Rightarrow> Undefined | Some i \<Rightarrow> Str [s ! i]))"
| "js_get v k = Undefined"

text \<open>
  \<^verbatim>\<open>v[k]\<close> for a name the monitor does not choose: the own property, else the
  member the engine finds on the prototype chain.
\<close>

definition js_member :: "js_runtime \<Rightarrow> jsval \<Rightarrow> string \<Rightarrow> jsval" where
  "js_member rt v k = (if hasOwnProperty v k then js_get v k else inherited_member rt v k)"

text \<open>
  The call \<^verbatim>\<open>v.hasOwnProperty(k)\<close> on a truthy data value. The method is looked
  up on \<open>v\<close> like any member: an own property named \<^verbatim>\<open>hasOwnProperty\<close> hides
  the inherited method, and calling that value, which is data, throws a
  \<^verbatim>\<open>TypeError\<close>.
\<close>

definition call_hasOwnProperty :: "jsval \<Rightarrow> string \<Rightarrow> js_error + bool" where
  "call_hasOwnProperty v k =
     (if hasOwnProperty v ''hasOwnProperty'' then Inl TypeError else Inr (hasOwnProperty v k))"

text \<open>
  \<^verbatim>\<open>getNestedValue(obj, path)\<close>: the path is split at the dots and followed from
  \<open>obj\<close>; a falsy intermediate value or an undefined member gives \<^verbatim>\<open>null\<close>.
\<close>

definition getNestedValue :: "js_runtime \<Rightarrow> jsval \<Rightarrow> string \<Rightarrow> jsval" where
  "getNestedValue rt obj path =
     foldl (\<lambda>current key.
              if truthy current \<and> js_member rt current key \<noteq> Undefined
              then js_member rt current key else Null)
           obj (split_dot path)"

section \<open>Rule data and the event context\<close>

text \<open>
  Triggers, conditions and variables are objects of the tag manager's container. A
  variable carries \<^verbatim>\<open>type\<close>, \<^verbatim>\<open>parameters.dataLayerName\<close> (\<open>None\<close> when
  \<^verbatim>\<open>parameters\<close> or the name is missing) and \<^verbatim>\<open>defaultValue\<close>; a condition's
  \<^verbatim>\<open>actual\<close> is \<open>None\<close> when it is missing; a trigger's \<^verbatim>\<open>conditions\<close> is
  \<open>None\<close> when the field is missing. Names and operators are strings; the expected
  value and the default value are any data.
\<close>

record variable =
  vtype :: string
  dataLayerName :: "string option"
  defaultValue :: jsval

record condition =
  actual :: "variable option"
  comparison :: string
  expected :: jsval

record trigger =
  conditions :: "condition list option"

text \<open>
  The result of \<^verbatim>\<open>extractEventInformation\<close>: the event name and the flattened
  payload object \<^verbatim>\<open>dataLayerData\<close>.
\<close>

record eventInfo =
  ei_eventName :: jsval
  dataLayerData :: "(string \<times> jsval) list"

text \<open>
  What the resolver reads from the page: \<^verbatim>\<open>window.location.href\<close> and
  \<^verbatim>\<open>window.dataLayer\<close>, an array when it is defined (\<open>None\<close> when undefined,
  else its entries).
\<close>

record page =
  location_href :: string
  window_dataLayer :: "jsval list option"

section \<open>Variable Resolver\<close>

text \<open>
  The backwards loop of \<^verbatim>\<open>getNestedDataLayerValue\<close> over \<^verbatim>\<open>window.dataLayer\<close>,
  given the entries newest first: \<open>Inr None\<close> when the loop ends without returning,
  \<open>Inl\<close> when \<^verbatim>\<open>entry.hasOwnProperty(dataLayerName)\<close> throws.
\<close>

fun searchDataLayer :: "js_runtime \<Rightarrow> string \<Rightarrow> jsval list \<Rightarrow> js_error + jsval option" where
  "searchDataLayer rt name [] = Inr None"
| "searchDataLayer rt name (entry # older) =
     (if \<not> truthy entry then searchDataLayer rt name older
      else
        (case call_hasOwnProperty entry name of
           Inl e \<Rightarrow> Inl e
         | Inr own \<Rightarrow>
             if own then Inr (Some (js_get entry name))
             else if str_includes name ''.'' \<and> getNestedValue rt entry name \<noteq> Null
                       \<and> getNestedValue rt entry name \<noteq> Undefined
                  then Inr (Some (getNestedValue rt entry name))
             else searchDataLayer rt name older))"

definition getNestedDataLayerValue :: "js_runtime \<Rightarrow> page \<Rightarrow> string \<Rightarrow> eventInfo \<Rightarrow> js_error + jsval" where
  "getNestedDataLayerValue rt pg name ei =
     bind_err (call_hasOwnProperty (Obj (dataLayerData ei)) name)
       (\<lambda>own.
          if own then Inr (js_get (Obj (dataLayerData ei)) name)
          else if str_includes name ''.'' \<and> getNestedValue rt (Obj (dataLayerData ei)) name \<noteq> Null
                    \<and> getNestedValue rt (Obj (dataLayerData ei)) name \<noteq> Undefined
               then Inr (getNestedValue rt (Obj (dataLayerData ei)) name)
          else (case window_dataLayer pg of
                  None \<Rightarrow> Inr Null
                | Some entries \<Rightarrow>
                    bind_err (searchDataLayer rt name (rev entries))
                      (\<lambda>found. case found of None \<Rightarrow> Inr Null | Some v \<Rightarrow> Inr v)))"

definition getVariableValue :: "js_runtime \<Rightarrow> page \<Rightarrow> variable option \<Rightarrow> eventInfo \<Rightarrow> js_error + jsval" where
  "getVariableValue rt pg var ei =
     (case var of
        None \<Rightarrow> Inr Null
      | Some v \<Rightarrow>
          if vtype v = ''DataLayer'' then
            (case dataLayerName v of
               None \<Rightarrow> Inr (js_or (defaultValue v) Null)
             | Some name \<Rightarrow>
                 if name \<noteq> [] then
                   bind_err (getNestedDataLayerValue rt pg name ei)
                     (\<lambda>value. if value \<noteq> Null \<and> value \<noteq> Undefined then Inr value
                               else Inr (js_or (defaultValue v) Null))
                 else Inr (js_or (defaultValue v) Null))
          else if vtype v = ''PageUrl'' then Inr (Str (location_href pg))
          else if vtype v = ''CustomJsFunction'' then Inr (js_or (defaultValue v) Null)
          else Inr (js_or (defaultValue v) Null))"

section \<open>Condition Evaluator\<close>

text \<open>\<^verbatim>\<open>try { body } catch (e) { handler }\<close>\<close>

definition try_catch :: "js_error + 'a \<Rightarrow> (js_error \<Rightarrow> js_error + 'a) \<Rightarrow> js_error + 'a" where
  "try_catch body handler = (case body of Inl e \<Rightarrow> handler e | Inr v \<Rightarrow> Inr v)"

text \<open>
  \<^verbatim>\<open>new RegExp(v)\<close>: the pattern is the empty string for \<^verbatim>\<open>undefined\<close> and
  \<^verbatim>\<open>String(v)\<close> otherwise; an invalid pattern throws \<^verbatim>\<open>SyntaxError\<close>.
\<close>

definition RegExp_new :: "js_runtime \<Rightarrow> jsval \<Rightarrow> js_error + (string \<Rightarrow> bool)" where
  "RegExp_new rt v =
     bind_err (if v = Undefined then Inr [] else ToString rt v)
       (\<lambda>pattern. case RegExp_compile rt pattern of
                     None \<Rightarrow> Inl SyntaxError
                   | Some test \<Rightarrow> Inr test)"

text \<open>
  \<^verbatim>\<open>f(String(a), String(e))\<close> and \<^verbatim>\<open>f(Number(a), Number(e))\<close>, the left
  conversion first.
\<close>

definition onStrings :: "js_runtime \<Rightarrow> (string \<Rightarrow> string \<Rightarrow> bool) \<Rightarrow> jsval \<Rightarrow> jsval \<Rightarrow> js_error + bool" where
  "onStrings rt f a e =
     bind_err (ToString rt a) (\<lambda>s. bind_err (ToString rt e) (\<lambda>t. Inr (f s t)))"

definition onNumbers :: "js_runtime \<Rightarrow> (jsnum \<Rightarrow> jsnum \<Rightarrow> bool) \<Rightarrow> jsval \<Rightarrow> jsval \<Rightarrow> js_error + bool" where
  "onNumbers rt f a e =
     bind_err (ToNumber rt a) (\<lambda>m. bind_err (ToNumber rt e) (\<lambda>n. Inr (f m n)))"

text \<open>
  \<^verbatim>\<open>typeof actualValue === 'number' && !isNaN(Number(expectedValue))\<close>: the
  conversion is made only for a number on the left.
\<close>

definition numericComparison :: "js_runtime \<Rightarrow> jsval \<Rightarrow> jsval \<Rightarrow> js_error + bool" where
  "numericComparison rt actualValue expectedValue =
     (if typeof_number actualValue
      then bind_err (ToNumber rt expectedValue) (\<lambda>n. Inr (\<not> isNaN n))
      else Inr False)"

text \<open>
  The \<^verbatim>\<open>switch (comparison)\<close> of \<^verbatim>\<open>evaluateCondition\<close>, on the resolved
  actual value and the expected value. \<open>Inl\<close> is an exception leaving the switch.
\<close>

definition evaluateComparison :: "js_runtime \<Rightarrow> string \<Rightarrow> jsval \<Rightarrow> jsval \<Rightarrow> js_error + bool" where
  "evaluateComparison rt cmp actualValue expectedValue =
     (if cmp = ''equals'' then
        bind_err (numericComparison rt actualValue expectedValue)
          (\<lambda>numeric.
             if numeric
             then bind_err (ToNumber rt expectedValue)
                    (\<lambda>n. Inr (strict_eq_number actualValue n))
             else onStrings rt (\<lambda>s t. s = t) actualValue expectedValue)
      else if cmp = ''notEquals'' then
        bind_err (numericComparison rt actualValue expectedValue)
          (\<lambda>numeric.
             if numeric
             then bind_err (ToNumber rt expectedValue)
                    (\<lambda>n. Inr (\<not> strict_eq_number actualValue n))
             else onStrings rt (\<lambda>s t. s \<noteq> t) actualValue expectedValue)
      else if cmp = ''contains'' then
        onStrings rt (\<lambda>s t. str_includes s t) actualValue expectedValue
      else if cmp = ''notContains'' then
        onStrings rt (\<lambda>s t. \<not> str_includes s t) actualValue expectedValue
      else if cmp = ''startsWith'' then
        onStrings rt startsWith actualValue expectedValue
      else if cmp = ''endsWith'' then
        onStrings rt endsWith actualValue expectedValue
      else if cmp = ''matchesRegex'' then
        try_catch
          (bind_err (RegExp_new rt expectedValue)
             (\<lambda>regex. bind_err (ToString rt actualValue) (\<lambda>s. Inr (regex s))))
          (\<lambda>e. Inr False)
      else if cmp = ''greaterThan'' then
        onNumbers rt num_gt actualValue expectedValue
      else if cmp = ''lessThan'' then
        onNumbers rt num_lt actualValue expectedValue
      else if cmp = ''greaterThanOrEqualTo'' then
        onNumbers rt num_ge actualValue expectedValue
      else if cmp = ''lessThanOrEqualTo'' then
        onNumbers rt num_le actualValue expectedValue
      else Inr False)"

text \<open>
  \<^verbatim>\<open>evaluateCondition\<close>. Before the switch it resolves the actual value and builds
  the message for \<^verbatim>\<open>debugLog\<close>, a template literal that converts the actual and
  the expected value to strings whether or not the message is printed; neither is inside
  a \<^verbatim>\<open>try\<close>.
\<close>

definition evaluateCondition :: "js_runtime \<Rightarrow> page \<Rightarrow> condition \<Rightarrow> eventInfo \<Rightarrow> js_error + bool" where
  "evaluateCondition rt pg c ei =
     bind_err (getVariableValue rt pg (actual c) ei)
       (\<lambda>actualValue.
          bind_err (ToString rt actualValue)
            (\<lambda>shownActual.
               bind_err (ToString rt (expected c))
                 (\<lambda>shownExpected.
                    evaluateComparison rt (comparison c) actualValue (expected c))))"

section \<open>Trigger Matcher\<close>

text \<open>
  \<^verbatim>\<open>conditions.map(c => evaluateCondition(c, eventInfo))\<close>: an exception in one
  evaluation ends the whole map.
\<close>

fun map_results :: "('a \<Rightarrow> js_error + 'b) \<Rightarrow> 'a list \<Rightarrow> js_error + 'b list" where
  "map_results f [] = Inr []"
| "map_results f (x # xs) =
     (case f x of
        Inl e \<Rightarrow> Inl e
      | Inr y \<Rightarrow> (case map_results f xs of Inl e \<Rightarrow> Inl e | Inr ys \<Rightarrow> Inr (y # ys)))"

text \<open>The test of the \<^verbatim>\<open>some\<close> in the timer branch of \<^verbatim>\<open>doesTriggerMatch\<close>.\<close>

definition isTimerCondition :: "condition \<Rightarrow> bool" where
  "isTimerCondition cond =
     (case actual cond of
        None \<Rightarrow> False
      | Some a \<Rightarrow> vtype a = ''DataLayer'' \<and> dataLayerName a = Some ''aEvent''
                  \<and> expected cond = Str ''timer'')"

definition doesTriggerMatch :: "js_runtime \<Rightarrow> page \<Rightarrow> trigger \<Rightarrow> eventInfo \<Rightarrow> js_error + bool" where
  "doesTriggerMatch rt pg t ei =
     (case conditions t of
        None \<Rightarrow> Inr False
      | Some cs \<Rightarrow>
          if length cs = 0 then Inr False
          else
            (case map_results (\<lambda>c. evaluateCondition rt pg c ei) cs of
               Inl e \<Rightarrow> Inl e
             | Inr conditionResults \<Rightarrow>
                 if (ei_eventName ei = Str ''timer''
                       \<or> js_get (Obj (dataLayerData ei)) ''aEvent'' = Str ''timer'')
                    \<and> list_ex isTimerCondition cs
                 then Inr (list_all (\<lambda>result. result) conditionResults)
                 else Inr (list_all (\<lambda>result. result) conditionResults)))"

section \<open>A reduced engine for worked examples\<close>

text \<open>
  The properties below hold for every runtime. To evaluate them on concrete inputs, one
  small instance is fixed: it parses unsigned decimal numerals only, compiles only
  patterns made of letters and digits (as a substring search, which is what such a
  pattern means) and rejects every other pattern, renders integers only, serialises
  JSON without escapes beyond the quote and the backslash, and knows one inherited
  member, the \<^verbatim>\<open>constructor\<close> of a plain object, with its \<^verbatim>\<open>name\<close>.
\<close>

definition digit_value :: "char \<Rightarrow> nat option" where
  "digit_value c = map_of (zip ''0123456789'' [0, 1, 2, 3, 4, 5, 6, 7, 8, 9]) c"

definition example_StringToNumber :: "string \<Rightarrow> jsnum" where
  "example_StringToNumber s =
     (if s \<noteq> [] \<and> list_all (\<lambda>c. digit_value c \<noteq> None) s
      then Fin (of_nat (foldl (\<lambda>acc c. 10 * acc + the (digit_value c)) 0 s))
      else NaN)"

definition is_alnum :: "char \<Rightarrow> bool" where
  "is_alnum c = (c \<in> set ''abcdefghijklmnopqrstuvwxyzABCDEFGHIJKLMNOPQRSTUVWXYZ0123456789'')"

definition example_RegExp_compile :: "string \<Rightarrow> (string \<Rightarrow> bool) option" where
  "example_RegExp_compile p =
     (if list_all is_alnum p then Some (\<lambda>s. str_includes s p) else None)"

definition json_quote :: "string \<Rightarrow> string" where
  "json_quote s =
     [CHR 0x22] @ concat (map (\<lambda>c. if c = CHR 0x22 \<or> c = CHR 0x5C then [CHR 0x5C, c] else [c]) s)
       @ [CHR 0x22]"

fun example_stringify :: "jsval \<Rightarrow> string" where
  "example_stringify Undefined = ''null''"
| "example_stringify Null = ''null''"
| "example_stringify (Bool b) = (if b then ''true'' else ''false'')"
| "example_stringify (Num n) =
     (case n of Fin r \<Rightarrow> Number_toString (\<lambda>n. []) n | _ \<Rightarrow> ''null'')"
| "example_stringify (Str s) = json_quote s"
| "example_stringify (Arr xs) = ''['' @ join_with '','' (map example_stringify xs) @ '']''"
| "example_stringify (Obj ps) =
     ''{'' @ join_with '',''
        (map (\<lambda>(k, v). json_quote k @ '':'' @ example_stringify v)
             (filter (\<lambda>(k, v). v \<noteq> Undefined) ps)) @ ''}''"
| "example_stringify (Builtin n) = ''null''"

definition example_inherited_member :: "jsval \<Rightarrow> string \<Rightarrow> jsval" where
  "example_inherited_member v k =
     (case v of
        Obj ps \<Rightarrow> if k = ''constructor'' then Builtin ''Object'' else Undefined
      | Builtin n \<Rightarrow> if k = ''name'' then Str n else Undefined
      | _ \<Rightarrow> Undefined)"

definition example_runtime :: js_runtime where
  "example_runtime =
     \<lparr>Number_toString_other = (\<lambda>n. []),
      StringToNumber = example_StringToNumber,
      RegExp_compile = example_RegExp_compile,
      JSON_stringify = example_stringify,
      inherited_member = example_inherited_member,
      Builtin_toString = (\<lambda>n. ''function '' @ n @ ''() { [native code] }''),
      Builtin_function = (\<lambda>n. True)\<rparr>"

definition example_page :: page where
  "example_page = \<lparr>location_href = ''https://example.org/'', window_dataLayer = None\<rparr>"

text \<open>
  Example rule data: a condition on the payload variable \<^verbatim>\<open>category\<close>, and the
  context of the event \<^verbatim>\<open>{category: "shoes"}\<close>.
\<close>

definition category_condition :: "string \<Rightarrow> jsval \<Rightarrow> condition" where
  "category_condition cmp e =
     \<lparr>actual = Some \<lparr>vtype = ''DataLayer'', dataLayerName = Some ''category'',
                      defaultValue = Undefined\<rparr>,
      comparison = cmp, expected = e\<rparr>"

definition shoes_event :: eventInfo where
  "shoes_event = \<lparr>ei_eventName = Str ''click'', dataLayerData = [(''category'', Str ''shoes'')]\<rparr>"

section \<open>Events\<close>

text \<open>
  The event object built by the injected script and delivered to the content script as
  the \<^verbatim>\<open>detail\<close> of \<^verbatim>\<open>matomoEventDetected\<close>. \<open>source\<close> is \<open>None\<close> when the
  field is missing; \<open>arrayIndex\<close> is \<open>None\<close> when it is \<^verbatim>\<open>null\<close> or missing;
  \<open>isHistorical\<close> is \<open>None\<close> when missing. \<open>enrichment\<close> is the object of the
  remaining fields (\<^verbatim>\<open>firedTags\<close>, \<^verbatim>\<open>triggerAnalysis\<close>,
  \<^verbatim>\<open>currentMtmArray\<close>, ...).
\<close>

record event_data =
  eventName :: jsval
  source :: "string option"
  details :: jsval
  rawData :: jsval
  arrayIndex :: "nat option"
  isHistorical :: "bool option"
  containerInfo :: jsval
  enrichment :: jsval

text \<open>\<^verbatim>\<open>{...v}\<close>: the own enumerable properties of \<open>v\<close>.\<close>

fun spread :: "jsval \<Rightarrow> (string \<times> jsval) list" where
  "spread (Obj ps) = ps"
| "spread (Arr xs) = zip (map show_nat [0..<length xs]) xs"
| "spread (Str s) = zip (map show_nat [0..<length s]) (map (\<lambda>c. Str [c]) s)"
| "spread v = []"

text \<open>\<^verbatim>\<open>delete obj[k]\<close>\<close>

definition delete_key :: "string \<Rightarrow> (string \<times> jsval) list \<Rightarrow> (string \<times> jsval) list" where
  "delete_key k ps = filter (\<lambda>p. fst p \<noteq> k) ps"

definition cleanEventDetails :: "jsval \<Rightarrow> jsval" where
  "cleanEventDetails d =
     (if \<not> truthy d \<or> \<not> typeof_object d then d
      else Obj (delete_key ''customTimestamp''
                 (delete_key ''_debug''
                   (delete_key ''__mtm_processed'' (spread d)))))"

text \<open>
  \<^verbatim>\<open>JSON.parse(JSON.stringify(v))\<close> of a data value. \<open>json_value\<close> is the copy of
  a property value, \<open>Undefined\<close> standing for the omitted property. At top level
  \<^verbatim>\<open>JSON.stringify\<close> gives \<^verbatim>\<open>undefined\<close> for \<^verbatim>\<open>undefined\<close> and for a
  function, and \<^verbatim>\<open>JSON.parse\<close> then throws a \<^verbatim>\<open>SyntaxError\<close>.
\<close>

fun json_value :: "jsval \<Rightarrow> jsval" where
  "json_value Undefined = Undefined"
| "json_value Null = Null"
| "json_value (Bool b) = Bool b"
| "json_value (Num n) = (case n of Fin r \<Rightarrow> Num (Fin r) | _ \<Rightarrow> Null)"
| "json_value (Str s) = Str s"
| "json_value (Arr xs) = Arr (map (\<lambda>x. if x = Undefined then Null else json_value x) xs)"
| "json_value (Obj ps) =
     Obj (map (\<lambda>(k, v). (k, json_value v)) (filter (\<lambda>(k, v). v \<noteq> Undefined) ps))"
| "json_value (Builtin n) = Undefined"

definition json_copy_throws :: "js_runtime \<Rightarrow> jsval \<Rightarrow> bool" where
  "json_copy_throws rt v =
     (case v of Undefined \<Rightarrow> True | Builtin n \<Rightarrow> Builtin_function rt n | _ \<Rightarrow> False)"

section \<open>Content script: presentation cache and event log\<close>

text \<open>
  A stored event: the delivered fields, the timestamp and the id. The timestamp is kept
  as the ISO string of a date; it is given here by the milliseconds of that date, which
  the string determines and which the sort of the log compares.
\<close>

record stored_event =
  data :: event_data
  timestamp :: int
  id :: rat

record recent =
  r_timestamp :: int
  hadArrayIndex :: bool

text \<open>
  The configuration read from extension storage on every delivery. \<open>cfg_maxEvents\<close>
  and \<open>cfg_virtualizeThreshold\<close> are counts; the extension's own panel never stores
  them, so they are the defaults unless storage was written from elsewhere.
\<close>

record config =
  watchMTM :: bool
  watchDataLayer :: bool
  autoShow :: bool
  consoleLogging :: bool
  cfg_maxEvents :: nat
  cfg_virtualizeThreshold :: nat

definition DEFAULT_CONFIG :: config where
  "DEFAULT_CONFIG =
     \<lparr>watchMTM = True, watchDataLayer = False, autoShow = True, consoleLogging = True,
      cfg_maxEvents = 1000, cfg_virtualizeThreshold = 100\<rparr>"

definition MAX_EVENTS :: nat where
  "MAX_EVENTS = 1000"

definition VIRTUALIZE_THRESHOLD :: nat where
  "VIRTUALIZE_THRESHOLD = 100"

definition DUPLICATE_TIMEOUT :: int where
  "DUPLICATE_TIMEOUT = 2000"

text \<open>
  The module state of the content script. The overlay, the badge and the console are
  not part of it: the functions that draw them read this state and do not change it.
\<close>

record consumer =
  eventLog :: "stored_event list"
  expandedStates :: "string \<rightharpoonup> bool"
  recentEvents :: "string \<rightharpoonup> recent"
  suppressedDuplicates :: nat
  maxEvents :: nat
  virtualizeThreshold :: nat
  isVirtualized :: bool
  globalContainerInfo :: jsval
  consoleLoggingEnabled :: bool

definition initial_consumer :: consumer where
  "initial_consumer =
     \<lparr>eventLog = [], expandedStates = Map.empty, recentEvents = Map.empty,
      suppressedDuplicates = 0, maxEvents = MAX_EVENTS,
      virtualizeThreshold = VIRTUALIZE_THRESHOLD, isVirtualized = False,
      globalContainerInfo = Null, consoleLoggingEnabled = False\<rparr>"

text \<open>\<^verbatim>\<open>cleanupEventCaches\<close>, with the reading of \<^verbatim>\<open>Date.now()\<close> it takes.\<close>

definition cleanupEventCaches :: "int \<Rightarrow> consumer \<Rightarrow> consumer" where
  "cleanupEventCaches now s =
     s\<lparr>recentEvents :=
         (\<lambda>key. case recentEvents s key of
                   None \<Rightarrow> None
                 | Some eventInfo \<Rightarrow>
                     if now - r_timestamp eventInfo > DUPLICATE_TIMEOUT then None
                     else Some eventInfo)\<rparr>"

text \<open>The string \<^verbatim>\<open>eventJson\<close> of \<^verbatim>\<open>isExactDuplicate\<close>.\<close>

definition eventJson :: "js_runtime \<Rightarrow> event_data \<Rightarrow> string" where
  "eventJson rt newEvent =
     JSON_stringify rt
       (Obj [(''eventName'', eventName newEvent),
             (''source'', case source newEvent of
                            None \<Rightarrow> Undefined
                          | Some s \<Rightarrow> Str (replace_first s '' (historical)'' [])),
             (''details'', if truthy (details newEvent)
                           then cleanEventDetails (details newEvent) else Null)])"

text \<open>
  \<^verbatim>\<open>isExactDuplicate\<close>: the result and the state after it. \<open>now\<close> is the reading of
  the clock at its start, \<open>now_cleanup\<close> the reading inside
  \<^verbatim>\<open>cleanupEventCaches\<close>.
\<close>

definition isExactDuplicate :: "js_runtime \<Rightarrow> int \<Rightarrow> int \<Rightarrow> event_data \<Rightarrow> consumer \<Rightarrow> bool \<times> consumer" where
  "isExactDuplicate rt now now_cleanup newEvent s =
     (if (case recentEvents s (eventJson rt newEvent) of
            None \<Rightarrow> False
          | Some lastSeen \<Rightarrow>
              now - r_timestamp lastSeen < DUPLICATE_TIMEOUT
              \<and> hadArrayIndex lastSeen \<noteq> (arrayIndex newEvent \<noteq> None))
      then (True, s)
      else (False,
            cleanupEventCaches now_cleanup
              (s\<lparr>recentEvents := (recentEvents s)
                    (eventJson rt newEvent \<mapsto>
                       \<lparr>r_timestamp = now, hadArrayIndex = (arrayIndex newEvent \<noteq> None)\<rparr>)\<rparr>)))"

text \<open>The key \<^verbatim>\<open>`event-${event.id}`\<close> of an event in \<^verbatim>\<open>expandedStates\<close>.\<close>

definition eventId :: "js_runtime \<Rightarrow> stored_event \<Rightarrow> string" where
  "eventId rt event = ''event-'' @ Number_toString (Number_toString_other rt) (Fin (id event))"

definition cleanupEventLog :: "js_runtime \<Rightarrow> consumer \<Rightarrow> consumer" where
  "cleanupEventLog rt s =
     (if length (eventLog s) > maxEvents s then
        (let eventsToRemove = length (eventLog s) - maxEvents s;
             removedEvents = take eventsToRemove (eventLog s)
         in s\<lparr>eventLog := drop eventsToRemove (eventLog s),
               expandedStates :=
                 (\<lambda>k. if k \<in> set (map (eventId rt) removedEvents) then None
                       else expandedStates s k)\<rparr>)
      else s)"

definition checkVirtualization :: "consumer \<Rightarrow> consumer" where
  "checkVirtualization s = s\<lparr>isVirtualized := (length (eventLog s) > virtualizeThreshold s)\<rparr>"

text \<open>\<^verbatim>\<open>cleanupExpandedStates\<close>: only the keys of the last 20 events are kept.\<close>

definition cleanupExpandedStates :: "js_runtime \<Rightarrow> consumer \<Rightarrow> consumer" where
  "cleanupExpandedStates rt s =
     s\<lparr>expandedStates :=
         (\<lambda>k. if k \<in> set (map (eventId rt) (drop (length (eventLog s) - 20) (eventLog s)))
               then expandedStates s k else None)\<rparr>"

text \<open>
  One delivery of \<^verbatim>\<open>matomoEventDetected\<close>: one run of the callback that receives
  the configuration. Besides the configuration and the \<^verbatim>\<open>detail\<close>, the callback
  reads the clock (\<open>now_date\<close> for the timestamp of an event without
  \<^verbatim>\<open>customTimestamp\<close>, \<open>now_id\<close> for its id, \<open>now_dup\<close> and \<open>now_cleanup\<close>
  inside \<^verbatim>\<open>isExactDuplicate\<close>) and \<^verbatim>\<open>Math.random()\<close>. The
  \<^verbatim>\<open>customTimestamp\<close> of the detail is a number of milliseconds; missing or 0 it
  is falsy.
\<close>

record delivery =
  cfg :: config
  detail :: event_data
  customTimestamp :: "int option"
  now_date :: int
  now_id :: int
  now_dup :: int
  now_cleanup :: int
  random :: rat

definition hasCustomTimestamp :: "delivery \<Rightarrow> bool" where
  "hasCustomTimestamp d = (customTimestamp d \<noteq> None \<and> customTimestamp d \<noteq> Some 0)"

text \<open>
  \<^verbatim>\<open>new Date(t).toISOString()\<close>: a \<^verbatim>\<open>RangeError\<close> when \<open>t\<close> is beyond the
  8.64e15 milliseconds a date can hold.
\<close>

definition toISOString :: "int \<Rightarrow> js_error + int" where
  "toISOString t = (if \<bar>t\<bar> > 8640000000000000 then Inl RangeError else Inr t)"

text \<open>The event name after the fallback chain of the listener.\<close>

definition resolveEventName :: "event_data \<Rightarrow> jsval" where
  "resolveEventName e =
     (if truthy (eventName e) then eventName e
      else if truthy (details e) \<and> truthy (js_get (details e) ''event'')
           then js_get (details e) ''event''
      else if truthy (rawData e) \<and> truthy (js_get (rawData e) ''event'')
           then js_get (rawData e) ''event''
      else if truthy (details e) \<and> truthy (js_get (details e) ''type'')
           then js_get (details e) ''type''
      else Str ''Unknown'')"

text \<open>
  The object \<^verbatim>\<open>eventData\<close> of the listener, after the name fallback, for a delivery
  whose timestamp is in range.
\<close>

definition listenerEventData :: "delivery \<Rightarrow> stored_event" where
  "listenerEventData d =
     \<lparr>data = (detail d)\<lparr>eventName := resolveEventName (detail d)\<rparr>,
      timestamp = (if hasCustomTimestamp d then the (customTimestamp d) else now_date d),
      id = (if hasCustomTimestamp d then of_int (the (customTimestamp d)) + random d
            else of_int (now_id d) + random d)\<rparr>"

definition effectiveMaxEvents :: "config \<Rightarrow> nat" where
  "effectiveMaxEvents c = (if cfg_maxEvents c = 0 then MAX_EVENTS else cfg_maxEvents c)"

text \<open>The parts of the listener around the duplicate check.\<close>

definition updateConfiguration :: "config \<Rightarrow> consumer \<Rightarrow> consumer" where
  "updateConfiguration c s =
     s\<lparr>maxEvents := effectiveMaxEvents c,
       virtualizeThreshold :=
         (if cfg_virtualizeThreshold c = 0 then VIRTUALIZE_THRESHOLD
          else cfg_virtualizeThreshold c),
       consoleLoggingEnabled := consoleLogging c\<rparr>"

text \<open>\<^verbatim>\<open>v > 0\<close>\<close>

definition gt_zero :: "js_runtime \<Rightarrow> jsval \<Rightarrow> js_error + bool" where
  "gt_zero rt v = bind_err (ToNumber rt v) (\<lambda>n. Inr (num_gt n (Fin 0)))"

text \<open>\<^verbatim>\<open>v && v.length > 0\<close>\<close>

definition nonEmpty :: "js_runtime \<Rightarrow> jsval \<Rightarrow> js_error + bool" where
  "nonEmpty rt v = (if truthy v then gt_zero rt (js_get v ''length'') else Inr False)"

definition storeContainerInfo :: "js_runtime \<Rightarrow> event_data \<Rightarrow> consumer \<Rightarrow> js_error + consumer" where
  "storeContainerInfo rt e s =
     bind_err (nonEmpty rt (containerInfo e))
       (\<lambda>present. Inr (if present then s\<lparr>globalContainerInfo := containerInfo e\<rparr> else s))"

text \<open>
  \<^verbatim>\<open>v.k\<close> where \<open>v\<close> may be \<^verbatim>\<open>null\<close> or \<^verbatim>\<open>undefined\<close>: the read then
  throws a \<^verbatim>\<open>TypeError\<close>.
\<close>

definition js_read :: "jsval \<Rightarrow> string \<Rightarrow> js_error + jsval" where
  "js_read v k = (if v = Undefined \<or> v = Null then Inl TypeError else Inr (js_get v k))"

text \<open>
  The parts of \<^verbatim>\<open>logEventToConsole\<close> that can throw, on the JSON copies in
  \<^verbatim>\<open>logData\<close>. First the report of the trigger analysis:
  \<^verbatim>\<open>triggerAnalysis.triggeredTriggers.length > 0\<close>, then the same test on
  \<^verbatim>\<open>firedTags\<close> and, when it holds, \<^verbatim>\<open>firedTags.map\<close>, a method only an array
  has, whose callback reads \<^verbatim>\<open>tag.name\<close> of every element that is not a string.
\<close>

definition logFiredTag :: "jsval \<Rightarrow> js_error + unit" where
  "logFiredTag tag =
     (case tag of Str s \<Rightarrow> Inr () | _ \<Rightarrow> bind_err (js_read tag ''name'') (\<lambda>n. Inr ()))"

definition logTriggerAnalysis :: "js_runtime \<Rightarrow> jsval \<Rightarrow> js_error + unit" where
  "logTriggerAnalysis rt triggerAnalysis =
     (if \<not> truthy triggerAnalysis then Inr ()
      else
        bind_err (js_read (js_get triggerAnalysis ''triggeredTriggers'') ''length'')
          (\<lambda>n. bind_err (gt_zero rt n)
            (\<lambda>someTriggers.
               bind_err (js_read (js_get triggerAnalysis ''firedTags'') ''length'')
                 (\<lambda>m. bind_err (gt_zero rt m)
                   (\<lambda>someTags.
                      if \<not> someTags then Inr ()
                      else (case js_get triggerAnalysis ''firedTags'' of
                              Arr tags \<Rightarrow> bind_err (map_results logFiredTag tags) (\<lambda>r. Inr ())
                            | _ \<Rightarrow> Inl TypeError))))))"

text \<open>
  The report of the container: for a non-empty \<^verbatim>\<open>containerInfo\<close> the members
  \<^verbatim>\<open>dataLayer\<close> and \<^verbatim>\<open>resolvedVariables\<close> of its first element are read, the
  \<^verbatim>\<open>values\<close> of the \<^verbatim>\<open>dataLayer\<close> are copied through JSON when truthy
  (\<^verbatim>\<open>values\<close> is also the name of a method of every array), and the \<^verbatim>\<open>id\<close> is
  put into a template literal.
\<close>

definition logContainerInfo :: "js_runtime \<Rightarrow> jsval \<Rightarrow> js_error + unit" where
  "logContainerInfo rt info =
     bind_err (nonEmpty rt info)
       (\<lambda>present.
          if \<not> present then Inr ()
          else
            (let container = js_get info ''0'' in
             bind_err (js_read container ''dataLayer'')
               (\<lambda>dataLayer.
                  if truthy dataLayer \<and> truthy (js_member rt dataLayer ''values'')
                       \<and> json_copy_throws rt (js_member rt dataLayer ''values'')
                  then Inl SyntaxError
                  else bind_err (ToString rt (js_get container ''id'')) (\<lambda>shown. Inr ()))))"

text \<open>
  \<^verbatim>\<open>logEventToConsole\<close>. It changes nothing in the state; what matters is whether
  it returns. With console logging enabled it builds the JSON copies of
  \<^verbatim>\<open>triggerAnalysis\<close>, \<^verbatim>\<open>containerInfo\<close> and \<^verbatim>\<open>currentMtmArray\<close> (each
  \<^verbatim>\<open>null\<close> when the field is falsy), puts the display name into the template
  literal of the group title, and reports the three copies.
\<close>

definition jsonOrNull :: "jsval \<Rightarrow> jsval" where
  "jsonOrNull v = (if truthy v then json_value v else Null)"

definition displayName :: "event_data \<Rightarrow> jsval" where
  "displayName e =
     (if eventName e = Str ''aEvent'' \<and> truthy (details e) \<and> truthy (js_get (details e) ''aEvent'')
      then js_get (details e) ''aEvent'' else eventName e)"

definition logEventToConsole :: "js_runtime \<Rightarrow> stored_event \<Rightarrow> consumer \<Rightarrow> js_error + unit" where
  "logEventToConsole rt eventData s =
     (if \<not> consoleLoggingEnabled s then Inr ()
      else
        bind_err (ToString rt (displayName (data eventData)))
          (\<lambda>title.
             bind_err (logTriggerAnalysis rt
                         (jsonOrNull (js_get (enrichment (data eventData)) ''triggerAnalysis'')))
               (\<lambda>u. bind_err (logContainerInfo rt (jsonOrNull (containerInfo (data eventData))))
                 (\<lambda>u. bind_err (nonEmpty rt
                                   (jsonOrNull (js_get (enrichment (data eventData)) ''currentMtmArray'')))
                   (\<lambda>some. Inr ())))))"

definition addToEventLog :: "js_runtime \<Rightarrow> stored_event \<Rightarrow> consumer \<Rightarrow> consumer" where
  "addToEventLog rt eventData s =
     (let s4 = s\<lparr>eventLog := eventLog s @ [eventData]\<rparr>;
          s5 = cleanupEventLog rt s4;
          s6 = s5\<lparr>eventLog := sort_key timestamp (eventLog s5)\<rparr>;
          s7 = checkVirtualization s6
      in cleanupExpandedStates rt s7)"

text \<open>
  The callback of the listener: the exception that ends it before the event is stored or
  counted as a duplicate, if any, and the state it leaves. The configuration is taken
  over first. The timestamp is made before anything else is done with the event; then
  the container info is kept, the name completed, the duplicate check made (it records
  the event in the cache when it is no duplicate), the event logged to the console, and
  only then pushed to the log, which is trimmed and sorted. The calls that redraw the
  overlay and the badge come after the last change of this state.
\<close>

definition onMatomoEventDetected :: "js_runtime \<Rightarrow> delivery \<Rightarrow> consumer \<Rightarrow> js_error option \<times> consumer" where
  "onMatomoEventDetected rt d s =
     (let s1 = updateConfiguration (cfg d) s
      in if \<not> watchMTM (cfg d) \<and> \<not> watchDataLayer (cfg d) then (None, s1)
         else
           (case toISOString (if hasCustomTimestamp d then the (customTimestamp d) else now_date d) of
              Inl err \<Rightarrow> (Some err, s1)
            | Inr stamp \<Rightarrow>
                (case storeContainerInfo rt (detail d) s1 of
                   Inl err \<Rightarrow> (Some err, s1)
                 | Inr s2 \<Rightarrow>
                     (let eventData = listenerEventData d;
                          (duplicate, s3) =
                             isExactDuplicate rt (now_dup d) (now_cleanup d) (data eventData) s2
                      in if duplicate
                         then (None, s3\<lparr>suppressedDuplicates := suppressedDuplicates s3 + 1\<rparr>)
                         else (case logEventToConsole rt eventData s3 of
                                 Inl err \<Rightarrow> (Some err, s3)
                               | Inr u \<Rightarrow> (None, addToEventLog rt eventData s3))))))"

text \<open>
  A sequence of deliveries, in the order the callbacks run. An exception ends one
  callback; the next one runs on the state it left.
\<close>

definition deliverAll :: "js_runtime \<Rightarrow> delivery list \<Rightarrow> consumer \<Rightarrow> consumer" where
  "deliverAll rt ds s = foldl (\<lambda>s d. snd (onMatomoEventDetected rt d s)) s ds"

text \<open>
  Example inputs of the content script: an event named \<open>name\<close>, with or without an
  index, as the injected script sends it from a page without tag manager.
\<close>

definition named_event :: "string \<Rightarrow> nat option \<Rightarrow> event_data" where
  "named_event name idx =
     \<lparr>eventName = Str name, source = Some ''_mtm.push'',
      details = Obj [(''event'', Str name)], rawData = Obj [(''event'', Str name)],
      arrayIndex = idx, isHistorical = None, containerInfo = Undefined,
      enrichment = Obj [(''triggerAnalysis'',
                         Obj [(''triggeredTriggers'', Arr []), (''firedTags'', Arr []),
                              (''debugMode'', Bool False)])]\<rparr>"

definition example_event :: "nat option \<Rightarrow> event_data" where
  "example_event idx = named_event ''click'' idx"

definition named_delivery :: "config \<Rightarrow> string \<Rightarrow> nat option \<Rightarrow> int \<Rightarrow> delivery" where
  "named_delivery c name idx t =
     \<lparr>cfg = c, detail = named_event name idx, customTimestamp = Some t,
      now_date = t, now_id = t, now_dup = t, now_cleanup = t, random = 1 / 2\<rparr>"


section \<open>Injected script: entries of the monitored array\<close>

text \<open>
  An element of \<^verbatim>\<open>window._mtm\<close>. Besides its value the monitor depends on two things
  a JSON-like value does not show: \<^verbatim>\<open>__mtm_processed\<close> set on an array (a named
  property beside its elements; an object carries the marker among its properties), and
  whether the object accepts a new property: an ordinary object does, a sealed one
  (\<^verbatim>\<open>Object.seal\<close>, \<^verbatim>\<open>Object.preventExtensions\<close>) only lets existing
  properties be written, a frozen one (\<^verbatim>\<open>Object.freeze\<close>) nothing. Every element
  is an object of its own (no object occurs twice in the array or in one call of push).
\<close>

datatype integrity = Ordinary | Sealed | Frozen

record entry =
  body :: jsval
  array_marker :: jsval
  integrity :: integrity






text \<open>\<^verbatim>\<open>obj[k] = v\<close> on the property list of an object that accepts it.\<close>

definition obj_set :: "string \<Rightarrow> jsval \<Rightarrow> (string \<times> jsval) list \<Rightarrow> (string \<times> jsval) list" where
  "obj_set k v ps =
     (if map_of ps k = None then ps @ [(k, v)]
      else map (\<lambda>p. if fst p = k then (k, v) else p) ps)"


section \<open>Injected script: Dispatch Gate and global cache\<close>

definition GLOBAL_EVENTS :: int where
  "GLOBAL_EVENTS = 1000"


text \<open>
  What the tag manager on the page contributes to an event: the fields added by
  \<^verbatim>\<open>extractFiredTags\<close>, \<^verbatim>\<open>addTriggerAnalysis\<close> and the other enrichment as one
  opaque value, the result of \<^verbatim>\<open>getMTMContainerInfo\<close> (an array, empty without a tag
  manager), and whether \<^verbatim>\<open>JSON.stringify\<close> of the enriched event succeeds (it throws
  on the cyclic references container objects may hold). The enrichment itself is taken
  to return.
\<close>

record host =
  analysis :: "event_data \<Rightarrow> jsval"
  mtmContainerInfo :: "jsval list"
  serializable :: "event_data \<Rightarrow> bool"

text \<open>An event dispatched on the document: its \<^verbatim>\<open>detail\<close>.\<close>

record dispatched_event =
  ev_detail :: event_data
  ev_customTimestamp :: int

text \<open>
  The state of the injected script and of the page it watches: the global cache, the
  scan flag, the events dispatched on the document so far, \<^verbatim>\<open>window._mtm\<close>
  (\<open>None\<close> while undefined), the \<^verbatim>\<open>lastKnownLength\<close> of the push wrapper, and
  the tasks scheduled with \<^verbatim>\<open>setTimeout(..., 50)\<close>, each given by the event object it
  will enrich and dispatch.
\<close>

record injected =
  globalProcessedEvents :: "string \<rightharpoonup> int"
  initialScanCompleted :: bool
  dispatched :: "dispatched_event list"
  window_mtm :: "entry list option"
  lastKnownLength :: nat
  timers :: "event_data list"

text \<open>The readings of \<^verbatim>\<open>Date.now()\<close> in one pass through the gate.\<close>

record gate_clock =
  t_check :: int
  t_mark :: int
  t_cleanup :: int

text \<open>
  \<^verbatim>\<open>cleanedEventData\<close>: the JSON copy of the event, or, when serialisation throws, the
  three-field substitute of the \<^verbatim>\<open>catch\<close> block.
\<close>

definition cleanedEventData :: "host \<Rightarrow> event_data \<Rightarrow> event_data" where
  "cleanedEventData h e =
     (if serializable h e then
        \<lparr>eventName = json_value (eventName e), source = source e,
         details = json_value (details e), rawData = json_value (rawData e),
         arrayIndex = arrayIndex e, isHistorical = isHistorical e,
         containerInfo = json_value (containerInfo e), enrichment = json_value (enrichment e)\<rparr>
      else
        \<lparr>eventName = js_or (eventName e) (Str ''unknown''),
         source = (case source e of
                     None \<Rightarrow> Some ''unknown''
                   | Some src \<Rightarrow> if src = [] then Some ''unknown'' else Some src),
         details = (if typeof_object (details e) then Obj [(''serialized'', Str ''true'')]
                    else details e),
         rawData = Undefined, arrayIndex = None, isHistorical = None,
         containerInfo = Undefined, enrichment = Undefined\<rparr>)"

text \<open>The string \<^verbatim>\<open>eventSignature\<close> of \<^verbatim>\<open>isGlobalDuplicate\<close> and \<^verbatim>\<open>markEventAsProcessed\<close>.\<close>

definition eventSignature :: "js_runtime \<Rightarrow> event_data \<Rightarrow> string" where
  "eventSignature rt eventData =
     JSON_stringify rt
       (Obj [(''eventName'', js_or (eventName eventData) (Str ''unknown'')),
             (''source'', js_or (case source eventData of
                                  None \<Rightarrow> Undefined
                                | Some s \<Rightarrow> Str (replace_first s '' (historical)'' []))
                               (Str ''unknown'')),
             (''details'', if truthy (details eventData)
                           then cleanEventDetails (details eventData) else Null)])"

definition isGlobalDuplicate :: "js_runtime \<Rightarrow> int \<Rightarrow> event_data \<Rightarrow> injected \<Rightarrow> bool" where
  "isGlobalDuplicate rt now eventData s =
     (case globalProcessedEvents s (eventSignature rt eventData) of
        None \<Rightarrow> False
      | Some lastSeen \<Rightarrow> now - lastSeen < GLOBAL_EVENTS)"

definition cleanupCache :: "int \<Rightarrow> int \<Rightarrow> (string \<rightharpoonup> int) \<Rightarrow> (string \<rightharpoonup> int)" where
  "cleanupCache now maxAge cache =
     (\<lambda>key. case cache key of
               None \<Rightarrow> None
             | Some seen \<Rightarrow> if now - seen > maxAge then None else Some seen)"

definition markEventAsProcessed :: "js_runtime \<Rightarrow> int \<Rightarrow> int \<Rightarrow> event_data \<Rightarrow> injected \<Rightarrow> injected" where
  "markEventAsProcessed rt now now_clean eventData s =
     s\<lparr>globalProcessedEvents :=
         cleanupCache now_clean GLOBAL_EVENTS
           ((globalProcessedEvents s)(eventSignature rt eventData \<mapsto> now))\<rparr>"

text \<open>
  \<^verbatim>\<open>dispatchMatomoEventWithTimestamp\<close>. (Its guard against a missing event object
  never fires: every caller passes the object it has just built. The copy of
  \<^verbatim>\<open>_mtm\<close> attached for the console is part of the enrichment.)
\<close>

definition dispatchMatomoEventWithTimestamp ::
    "js_runtime \<Rightarrow> host \<Rightarrow> gate_clock \<Rightarrow> event_data \<Rightarrow> int \<Rightarrow> injected \<Rightarrow> injected" where
  "dispatchMatomoEventWithTimestamp rt h clk eventData ts s =
     (let cleaned = cleanedEventData h eventData
      in if isGlobalDuplicate rt (t_check clk) cleaned s then s
         else (markEventAsProcessed rt (t_mark clk) (t_cleanup clk) cleaned s)
                \<lparr>dispatched := dispatched s @ [\<lparr>ev_detail = cleaned, ev_customTimestamp = ts\<rparr>]\<rparr>)"

text \<open>\<^verbatim>\<open>dispatchMatomoEvent\<close>, for live events: the timestamp is the reading \<open>now\<close> of the clock.\<close>

definition dispatchMatomoEvent ::
    "js_runtime \<Rightarrow> host \<Rightarrow> gate_clock \<Rightarrow> int \<Rightarrow> event_data \<Rightarrow> injected \<Rightarrow> injected" where
  "dispatchMatomoEvent rt h clk now eventData s =
     dispatchMatomoEventWithTimestamp rt h clk eventData now s"

text \<open>Several passes through the gate, one after the other.\<close>

definition dispatchAll ::
    "js_runtime \<Rightarrow> host \<Rightarrow> (gate_clock \<times> event_data \<times> int) list \<Rightarrow> injected \<Rightarrow> injected" where
  "dispatchAll rt h xs s =
     foldl (\<lambda>s x. dispatchMatomoEventWithTimestamp rt h (fst x) (fst (snd x)) (snd (snd x)) s) s xs"

section \<open>Injected script: backlog scan\<close>

text \<open>The object \<^verbatim>\<open>debugInfo\<close> of \<^verbatim>\<open>analyzeMTMDirectPushWithTimestamp\<close>.\<close>

definition debugInfo :: "bool \<Rightarrow> nat option \<Rightarrow> jsval" where
  "debugInfo isHist idx =
     Obj [(''sourceType'', Str (if isHist then ''initial-scan'' else ''live-proxy'')),
          (''detectionMethod'', Str (if isHist then ''array-read'' else ''proxy-intercept'')),
          (''arrayIndex'', case idx of None \<Rightarrow> Null | Some i \<Rightarrow> Num (Fin (of_nat i))),
          (''isHistorical'', Bool isHist)]"

text \<open>
  The event object \<^verbatim>\<open>analyzeMTMDirectPushWithTimestamp\<close> builds from an entry, before
  enrichment.
\<close>

definition timestampedEventData :: "string \<Rightarrow> entry \<Rightarrow> bool \<Rightarrow> nat option \<Rightarrow> event_data" where
  "timestampedEventData objectName entry isHist idx =
     \<lparr>eventName =
        (case body entry of
           Arr xs \<Rightarrow> js_or (case xs of [] \<Rightarrow> Undefined | x # _ \<Rightarrow> x) (Str ''MTM Array Event'')
         | Obj ps \<Rightarrow> js_or (js_get (Obj ps) ''event'')
                      (js_or (js_get (Obj ps) ''eventName'') (Str ''MTM Direct Object''))
         | _ \<Rightarrow> Str ''MTM Direct Value''),
      source = Some (objectName @ ''.push'' @ (if isHist then '' (historical)'' else [])),
      details =
        (case body entry of
           Arr xs \<Rightarrow> Obj [(''action'', case xs of [] \<Rightarrow> Undefined | x # _ \<Rightarrow> x),
                           (''parameters'', Arr (drop 1 xs)),
                           (''_debug'', debugInfo isHist idx)]
         | Obj ps \<Rightarrow> Obj (obj_set ''_debug'' (debugInfo isHist idx) ps)
         | v \<Rightarrow> Obj [(''value'', v), (''_debug'', debugInfo isHist idx)]),
      rawData = body entry,
      arrayIndex = idx,
      isHistorical = Some isHist,
      containerInfo = Undefined,
      enrichment = Undefined\<rparr>"

text \<open>\<^verbatim>\<open>addTriggerAnalysis\<close> and \<^verbatim>\<open>addContainerInfo\<close>, as far as the host decides them.\<close>

definition enrich :: "host \<Rightarrow> event_data \<Rightarrow> event_data" where
  "enrich h e =
     (e\<lparr>enrichment := analysis h e\<rparr>)
       \<lparr>containerInfo := (if mtmContainerInfo h \<noteq> [] then Arr (mtmContainerInfo h)
                          else containerInfo e)\<rparr>"





section \<open>Injected script: the wrapped push\<close>

definition createMTMEventData :: "string \<Rightarrow> entry \<Rightarrow> nat option \<Rightarrow> event_data" where
  "createMTMEventData objectName entry idx =
     \<lparr>eventName =
        (case body entry of
           Arr xs \<Rightarrow> js_or (case xs of [] \<Rightarrow> Undefined | x # _ \<Rightarrow> x) (Str ''MTM Array Event'')
         | Obj ps \<Rightarrow> js_or (js_get (Obj ps) ''event'')
                      (js_or (js_get (Obj ps) ''eventName'') (Str ''MTM Direct Object''))
         | _ \<Rightarrow> Str ''MTM Direct Value''),
      source = Some (objectName @ ''.push''),
      details =
        (case body entry of
           Arr xs \<Rightarrow> Obj [(''action'', case xs of [] \<Rightarrow> Undefined | x # _ \<Rightarrow> x),
                           (''parameters'', Arr (drop 1 xs))]
         | Obj ps \<Rightarrow> Obj ps
         | v \<Rightarrow> Obj [(''value'', v)]),
      rawData = body entry,
      arrayIndex = idx,
      isHistorical = None,
      containerInfo = Undefined,
      enrichment = Undefined\<rparr>"





text \<open>Example inputs of the injected script: a page without tag manager, at start.\<close>

definition example_host :: host where
  "example_host =
     \<lparr>analysis = (\<lambda>e. Obj [(''triggerAnalysis'',
                     Obj [(''triggeredTriggers'', Arr []), (''firedTags'', Arr []),
                          (''debugMode'', Bool False), (''totalTriggers'', Num (Fin 0)),
                          (''totalTags'', Num (Fin 0))])]),
      mtmContainerInfo = [],
      serializable = (\<lambda>e. True)\<rparr>"

definition initial_injected :: injected where
  "initial_injected =
     \<lparr>globalProcessedEvents = Map.empty, initialScanCompleted = False, dispatched = [],
      window_mtm = None, lastKnownLength = 0, timers = []\<rparr>"

definition plain_entry :: "jsval \<Rightarrow> entry" where
  "plain_entry v = \<lparr>body = v, array_marker = Undefined, integrity = Ordinary\<rparr>"




section \<open>Properties\<close>

subsection \<open>Condition Evaluator and Trigger Matcher\<close>

lemma bind_err_Inr [simp]: "bind_err (Inr v) f = f v"
  by (simp add: bind_err_def)

lemma bind_err_Inl [simp]: "bind_err (Inl e) f = Inl e"
  by (simp add: bind_err_def)

lemma ToNumber_throws: "isl (ToNumber rt v) = isl (ToString rt v)"
  by (cases v; cases "ToString rt v") simp_all

lemma matchesRegex_returns: "\<not> isl (evaluateComparison rt ''matchesRegex'' a e)"
  unfolding evaluateComparison_def try_catch_def
  by (simp split: sum.split)

lemma matchesRegex_invalid:
  "RegExp_new rt e = Inl err \<Longrightarrow> evaluateComparison rt ''matchesRegex'' a e = Inr False"
  by (simp add: evaluateComparison_def try_catch_def)

lemma map_results_returns:
  "\<forall>x \<in> set xs. \<exists>b. f x = Inr b \<Longrightarrow> map_results f xs = Inr (map (\<lambda>x. f x = Inr True) xs)"
proof (induction xs)
  case Nil show ?case by simp
next
  case (Cons x xs)
  obtain b where "f x = Inr b" using Cons.prems by auto
  with Cons show ?case by simp
qed

lemma map_results_throws:
  "\<exists>x \<in> set xs. isl (f x) \<Longrightarrow> isl (map_results f xs)"
proof (induction xs)
  case Nil then show ?case by simp
next
  case (Cons x xs)
  show ?case
  proof (cases "f x")
    case (Inl e) then show ?thesis by simp
  next
    case (Inr b)
    with Cons.prems have "\<exists>x \<in> set xs. isl (f x)" by auto
    then have "isl (map_results f xs)" by (rule Cons.IH)
    with Inr show ?thesis by (cases "map_results f xs") simp_all
  qed
qed

lemma map_results_all_true:
  "(\<exists>ys. map_results f xs = Inr ys \<and> list_all (\<lambda>result. result) ys)
     = (\<forall>x \<in> set xs. f x = Inr True)"
proof (induction xs)
  case Nil show ?case by simp
next
  case (Cons x xs)
  show ?case
  proof (cases "f x")
    case (Inl e) then show ?thesis by simp
  next
    case (Inr b)
    show ?thesis
    proof (cases "map_results f xs")
      case (Inl e)
      with Cons.IH have "\<not> (\<forall>x \<in> set xs. f x = Inr True)" by simp
      with Inl Inr show ?thesis by simp
    next
      case r: (Inr ys)
      with Cons.IH have "list_all (\<lambda>result. result) ys = (\<forall>x \<in> set xs. f x = Inr True)" by simp
      with r Inr show ?thesis by simp
    qed
  qed
qed

lemma doesTriggerMatch_unfold:
  "doesTriggerMatch rt pg t ei =
     (case conditions t of
        None \<Rightarrow> Inr False
      | Some cs \<Rightarrow>
          if cs = [] then Inr False
          else bind_err (map_results (\<lambda>c. evaluateCondition rt pg c ei) cs)
                 (\<lambda>rs. Inr (list_all (\<lambda>result. result) rs)))"
  by (simp add: doesTriggerMatch_def bind_err_def split: option.split sum.split)

lemma doesTriggerMatch_true:
  "(doesTriggerMatch rt pg t ei = Inr True)
     = (\<exists>cs. conditions t = Some cs \<and> cs \<noteq> []
              \<and> (\<forall>c \<in> set cs. evaluateCondition rt pg c ei = Inr True))"
proof (cases "conditions t")
  case None
  then show ?thesis by (simp add: doesTriggerMatch_unfold)
next
  case (Some cs)
  show ?thesis
  proof (cases "cs = []")
    case True
    with Some show ?thesis by (simp add: doesTriggerMatch_unfold)
  next
    case False
    have "(doesTriggerMatch rt pg t ei = Inr True)
            = (\<exists>ys. map_results (\<lambda>c. evaluateCondition rt pg c ei) cs = Inr ys
                     \<and> list_all (\<lambda>result. result) ys)"
      using Some False
      by (cases "map_results (\<lambda>c. evaluateCondition rt pg c ei) cs")
         (simp_all add: doesTriggerMatch_unfold)
    then show ?thesis using Some False by (simp add: map_results_all_true)
  qed
qed

lemma doesTriggerMatch_returns:
  assumes "conditions t = Some cs"
    and "\<forall>c \<in> set cs. \<exists>b. evaluateCondition rt pg c ei = Inr b"
  shows "doesTriggerMatch rt pg t ei
           = Inr (cs \<noteq> [] \<and> (\<forall>c \<in> set cs. evaluateCondition rt pg c ei = Inr True))"
proof -
  have "map_results (\<lambda>c. evaluateCondition rt pg c ei) cs
          = Inr (map (\<lambda>c. evaluateCondition rt pg c ei = Inr True) cs)"
    using assms(2) by (rule map_results_returns)
  then show ?thesis using assms(1)
    by (simp add: doesTriggerMatch_unfold list_all_iff)
qed

lemma doesTriggerMatch_throws:
  assumes "conditions t = Some cs"
    and "\<exists>c \<in> set cs. isl (evaluateCondition rt pg c ei)"
  shows "isl (doesTriggerMatch rt pg t ei)"
proof -
  have "isl (map_results (\<lambda>c. evaluateCondition rt pg c ei) cs)"
    using assms(2) by (rule map_results_throws)
  moreover have "cs \<noteq> []" using assms(2) by auto
  ultimately show ?thesis using assms(1)
    by (cases "map_results (\<lambda>c. evaluateCondition rt pg c ei) cs")
       (simp_all add: doesTriggerMatch_unfold)
qed

text \<open>
  Claim C1. \<^verbatim>\<open>doesTriggerMatch\<close> returns true exactly when the trigger has a
  condition list, the list is not empty and every condition in it evaluates to true. A
  trigger with a missing or empty list returns false for every event. With two
  conditions of which one evaluates to true and the other to false it returns false.
  More generally, when every evaluation returns, the result is the conjunction; when an
  evaluation throws, so does \<^verbatim>\<open>doesTriggerMatch\<close>, which then returns nothing.
\<close>

theorem doesTriggerMatch_conjunction:
  "((doesTriggerMatch rt pg t ei = Inr True)
      = (\<exists>cs. conditions t = Some cs \<and> cs \<noteq> []
               \<and> (\<forall>c \<in> set cs. evaluateCondition rt pg c ei = Inr True)))
   \<and> (conditions t = None \<or> conditions t = Some [] \<longrightarrow>
        doesTriggerMatch rt pg t ei = Inr False)
   \<and> (conditions t = Some [c1, c2]
        \<and> ((evaluateCondition rt pg c1 ei = Inr True \<and> evaluateCondition rt pg c2 ei = Inr False)
            \<or> (evaluateCondition rt pg c1 ei = Inr False \<and> evaluateCondition rt pg c2 ei = Inr True))
        \<longrightarrow> doesTriggerMatch rt pg t ei = Inr False)
   \<and> (conditions t = Some cs \<and> (\<forall>c \<in> set cs. \<exists>b. evaluateCondition rt pg c ei = Inr b) \<longrightarrow>
        doesTriggerMatch rt pg t ei
          = Inr (cs \<noteq> [] \<and> (\<forall>c \<in> set cs. evaluateCondition rt pg c ei = Inr True)))
   \<and> (conditions t = Some cs \<and> (\<exists>c \<in> set cs. isl (evaluateCondition rt pg c ei)) \<longrightarrow>
        isl (doesTriggerMatch rt pg t ei))"
proof (intro conjI impI)
  show "(doesTriggerMatch rt pg t ei = Inr True)
          = (\<exists>cs. conditions t = Some cs \<and> cs \<noteq> []
                   \<and> (\<forall>c \<in> set cs. evaluateCondition rt pg c ei = Inr True))"
    by (rule doesTriggerMatch_true)
next
  assume "conditions t = None \<or> conditions t = Some []"
  then show "doesTriggerMatch rt pg t ei = Inr False"
    by (auto simp: doesTriggerMatch_unfold)
next
  assume a: "conditions t = Some [c1, c2]
        \<and> ((evaluateCondition rt pg c1 ei = Inr True \<and> evaluateCondition rt pg c2 ei = Inr False)
            \<or> (evaluateCondition rt pg c1 ei = Inr False \<and> evaluateCondition rt pg c2 ei = Inr True))"
  then have "\<forall>c \<in> set [c1, c2]. \<exists>b. evaluateCondition rt pg c ei = Inr b" by auto
  with a have "doesTriggerMatch rt pg t ei
                 = Inr ([c1, c2] \<noteq> [] \<and> (\<forall>c \<in> set [c1, c2]. evaluateCondition rt pg c ei = Inr True))"
    using doesTriggerMatch_returns [of t "[c1, c2]" rt pg ei] by blast
  with a show "doesTriggerMatch rt pg t ei = Inr False" by auto
next
  assume "conditions t = Some cs \<and> (\<forall>c \<in> set cs. \<exists>b. evaluateCondition rt pg c ei = Inr b)"
  then show "doesTriggerMatch rt pg t ei
               = Inr (cs \<noteq> [] \<and> (\<forall>c \<in> set cs. evaluateCondition rt pg c ei = Inr True))"
    using doesTriggerMatch_returns [of t cs rt pg ei] by blast
next
  assume "conditions t = Some cs \<and> (\<exists>c \<in> set cs. isl (evaluateCondition rt pg c ei))"
  then show "isl (doesTriggerMatch rt pg t ei)"
    using doesTriggerMatch_throws [of t cs rt pg ei] by blast
qed

text \<open>
  On the event \<^verbatim>\<open>{category: "shoes"}\<close>: the trigger with the conditions
  \<^verbatim>\<open>category equals shoes\<close> and \<^verbatim>\<open>category contains sho\<close> matches; with the
  second condition replaced by \<^verbatim>\<open>category equals hats\<close> it does not; with no
  condition, or no condition list, it does not; with a second condition whose expected
  value is \<^verbatim>\<open>{toString: "x"}\<close> the call throws.
\<close>

theorem doesTriggerMatch_conjunction_witness:
  "doesTriggerMatch example_runtime example_page
     \<lparr>conditions = Some [category_condition ''equals'' (Str ''shoes''),
                         category_condition ''contains'' (Str ''sho'')]\<rparr> shoes_event = Inr True
   \<and> doesTriggerMatch example_runtime example_page
     \<lparr>conditions = Some [category_condition ''equals'' (Str ''shoes''),
                         category_condition ''equals'' (Str ''hats'')]\<rparr> shoes_event = Inr False
   \<and> doesTriggerMatch example_runtime example_page \<lparr>conditions = Some []\<rparr> shoes_event = Inr False
   \<and> doesTriggerMatch example_runtime example_page \<lparr>conditions = None\<rparr> shoes_event = Inr False
   \<and> isl (doesTriggerMatch example_runtime example_page
     \<lparr>conditions = Some [category_condition ''equals'' (Str ''shoes''),
                         category_condition ''equals'' (Obj [(''toString'', Str ''x'')])]\<rparr>
     shoes_event)"
proof -
  have e1: "evaluateCondition example_runtime example_page
              (category_condition ''equals'' (Str ''shoes'')) shoes_event = Inr True"
    by (simp add: evaluateCondition_def evaluateComparison_def getVariableValue_def
          getNestedDataLayerValue_def call_hasOwnProperty_def category_condition_def
          shoes_event_def numericComparison_def onStrings_def)
  have e2: "evaluateCondition example_runtime example_page
              (category_condition ''contains'' (Str ''sho'')) shoes_event = Inr True"
    by (simp add: evaluateCondition_def evaluateComparison_def getVariableValue_def
          getNestedDataLayerValue_def call_hasOwnProperty_def category_condition_def
          shoes_event_def numericComparison_def onStrings_def)
  have e3: "evaluateCondition example_runtime example_page
              (category_condition ''equals'' (Str ''hats'')) shoes_event = Inr False"
    by (simp add: evaluateCondition_def evaluateComparison_def getVariableValue_def
          getNestedDataLayerValue_def call_hasOwnProperty_def category_condition_def
          shoes_event_def numericComparison_def onStrings_def)
  have e4: "evaluateCondition example_runtime example_page
              (category_condition ''equals'' (Obj [(''toString'', Str ''x'')])) shoes_event
              = Inl TypeError"
    by (simp add: evaluateCondition_def evaluateComparison_def getVariableValue_def
          getNestedDataLayerValue_def call_hasOwnProperty_def category_condition_def
          shoes_event_def numericComparison_def onStrings_def)
  show ?thesis
    using doesTriggerMatch_conjunction
            [of example_runtime example_page
                "\<lparr>conditions = Some [category_condition ''equals'' (Str ''shoes''),
                                    category_condition ''contains'' (Str ''sho'')]\<rparr>"
                shoes_event]
          doesTriggerMatch_conjunction
            [of example_runtime example_page
                "\<lparr>conditions = Some [category_condition ''equals'' (Str ''shoes''),
                                    category_condition ''equals'' (Str ''hats'')]\<rparr>"
                shoes_event
                "category_condition ''equals'' (Str ''shoes'')"
                "category_condition ''equals'' (Str ''hats'')"]
          doesTriggerMatch_conjunction
            [of example_runtime example_page "\<lparr>conditions = Some []\<rparr>" shoes_event]
          doesTriggerMatch_conjunction
            [of example_runtime example_page "\<lparr>conditions = None\<rparr>" shoes_event]
          doesTriggerMatch_conjunction
            [of example_runtime example_page
                "\<lparr>conditions = Some [category_condition ''equals'' (Str ''shoes''),
                                    category_condition ''equals'' (Obj [(''toString'', Str ''x'')])]\<rparr>"
                shoes_event _ _
                "[category_condition ''equals'' (Str ''shoes''),
                  category_condition ''equals'' (Obj [(''toString'', Str ''x'')])]"]
          e1 e2 e3 e4
    by simp
qed

lemma equals_numeric:
  assumes "typeof_number a" and "ToNumber rt e = Inr n" and "\<not> isNaN n"
  shows "evaluateComparison rt ''equals'' a e = Inr (a = Num n)"
proof -
  obtain m where a: "a = Num m" using assms(1) by (cases a) simp_all
  show ?thesis using assms(2,3)
    by (auto simp: a evaluateComparison_def numericComparison_def num_strict_eq_def isNaN_def)
qed

lemma equals_strings:
  assumes "\<not> typeof_number a \<or> ToNumber rt e = Inr NaN"
    and "ToString rt a = Inr s" and "ToString rt e = Inr t"
  shows "evaluateComparison rt ''equals'' a e = Inr (s = t)"
  using assms
  by (auto simp: evaluateComparison_def numericComparison_def onStrings_def isNaN_def)

lemma equals_throws:
  "isl (evaluateComparison rt ''equals'' a e) = (isl (ToString rt a) \<or> isl (ToString rt e))"
proof (cases "typeof_number a")
  case True
  then obtain m where a: "a = Num m" by (cases a) simp_all
  show ?thesis
  proof (cases "ToNumber rt e")
    case (Inl err)
    then have "isl (ToString rt e)" using ToNumber_throws [of rt e] by simp
    with Inl show ?thesis
      by (simp add: a evaluateComparison_def numericComparison_def)
  next
    case (Inr n)
    then have "\<not> isl (ToString rt e)" using ToNumber_throws [of rt e] by simp
    then obtain t where "ToString rt e = Inr t" by (cases "ToString rt e") simp_all
    with Inr show ?thesis
      by (simp add: a evaluateComparison_def numericComparison_def onStrings_def)
  qed
next
  case False
  then show ?thesis
    by (cases "ToString rt a"; cases "ToString rt e")
       (simp_all add: evaluateComparison_def numericComparison_def onStrings_def)
qed

text \<open>
  Claim C4. The \<^verbatim>\<open>equals\<close> operator compares numerically when the actual value is a
  number and \<^verbatim>\<open>Number(expected)\<close> is a number other than \<^verbatim>\<open>NaN\<close>: the result is
  whether the actual value is that number. Otherwise it compares the two string forms.
  It throws exactly when the string conversion of one side throws. With the actual value
  \<^verbatim>\<open>"42"\<close> and the expected value 42 the result is true, with \<^verbatim>\<open>"42a"\<close> false.
  The two comparisons differ: where \<^verbatim>\<open>Number("042")\<close> is 42, the number 42 equals
  the expected \<^verbatim>\<open>"042"\<close>, and the string \<^verbatim>\<open>"42"\<close> does not.
\<close>

theorem equals_numeric_aware:
  "(typeof_number a \<and> ToNumber rt e = Inr n \<and> \<not> isNaN n \<longrightarrow>
      evaluateComparison rt ''equals'' a e = Inr (a = Num n))
   \<and> ((\<not> typeof_number a \<or> ToNumber rt e = Inr NaN)
        \<and> ToString rt a = Inr s \<and> ToString rt e = Inr t \<longrightarrow>
      evaluateComparison rt ''equals'' a e = Inr (s = t))
   \<and> (isl (evaluateComparison rt ''equals'' a e) = (isl (ToString rt a) \<or> isl (ToString rt e)))
   \<and> evaluateComparison rt ''equals'' (Str ''42'') (Num (Fin 42)) = Inr True
   \<and> evaluateComparison rt ''equals'' (Str ''42a'') (Num (Fin 42)) = Inr False
   \<and> (StringToNumber rt ''042'' = Fin 42 \<longrightarrow>
        evaluateComparison rt ''equals'' (Num (Fin 42)) (Str ''042'') = Inr True
        \<and> evaluateComparison rt ''equals'' (Str ''42'') (Str ''042'') = Inr False)"
proof (intro conjI impI)
  assume "typeof_number a \<and> ToNumber rt e = Inr n \<and> \<not> isNaN n"
  then show "evaluateComparison rt ''equals'' a e = Inr (a = Num n)"
    using equals_numeric [of a rt e n] by blast
next
  assume "(\<not> typeof_number a \<or> ToNumber rt e = Inr NaN)
            \<and> ToString rt a = Inr s \<and> ToString rt e = Inr t"
  then show "evaluateComparison rt ''equals'' a e = Inr (s = t)"
    using equals_strings [of a rt e s t] by blast
next
  show "isl (evaluateComparison rt ''equals'' a e) = (isl (ToString rt a) \<or> isl (ToString rt e))"
    by (rule equals_throws)
next
  show "evaluateComparison rt ''equals'' (Str ''42'') (Num (Fin 42)) = Inr True"
    by (simp add: evaluateComparison_def numericComparison_def onStrings_def
          Number_toString_def show_nat.simps digit_def)
next
  show "evaluateComparison rt ''equals'' (Str ''42a'') (Num (Fin 42)) = Inr False"
    by (simp add: evaluateComparison_def numericComparison_def onStrings_def
          Number_toString_def show_nat.simps digit_def)
next
  assume "StringToNumber rt ''042'' = Fin 42"
  then show "evaluateComparison rt ''equals'' (Num (Fin 42)) (Str ''042'') = Inr True"
    by (simp add: evaluateComparison_def numericComparison_def isNaN_def num_strict_eq_def)
next
  show "evaluateComparison rt ''equals'' (Str ''42'') (Str ''042'') = Inr False"
    by (simp add: evaluateComparison_def numericComparison_def onStrings_def)
qed

text \<open>
  In the example engine: the number 42 equals the expected strings \<^verbatim>\<open>"42"\<close> and
  \<^verbatim>\<open>"042"\<close> (numeric comparison), not \<^verbatim>\<open>"42a"\<close> (no number: the string forms
  differ); the string \<^verbatim>\<open>"42"\<close> does not equal \<^verbatim>\<open>"042"\<close> (string comparison);
  against the expected value \<^verbatim>\<open>{toString: "x"}\<close> the comparison throws.
\<close>

theorem equals_numeric_aware_witness:
  "evaluateComparison example_runtime ''equals'' (Num (Fin 42)) (Str ''42'') = Inr True
   \<and> evaluateComparison example_runtime ''equals'' (Num (Fin 42)) (Str ''042'') = Inr True
   \<and> evaluateComparison example_runtime ''equals'' (Str ''42'') (Str ''042'') = Inr False
   \<and> evaluateComparison example_runtime ''equals'' (Num (Fin 42)) (Str ''42a'') = Inr False
   \<and> isl (evaluateComparison example_runtime ''equals'' (Num (Fin 42)) (Obj [(''toString'', Str ''x'')]))"
proof -
  have n1: "ToNumber example_runtime (Str ''42'') = Inr (Fin 42)"
    by (simp add: example_runtime_def example_StringToNumber_def digit_value_def)
  have n2: "StringToNumber example_runtime ''042'' = Fin 42"
    by (simp add: example_runtime_def example_StringToNumber_def digit_value_def)
  have n3: "ToNumber example_runtime (Str ''42a'') = Inr NaN"
    by (simp add: example_runtime_def example_StringToNumber_def digit_value_def)
  have s1: "ToString example_runtime (Num (Fin 42)) = Inr ''42''"
    by (simp add: Number_toString_def show_nat.simps digit_def)
  have s2: "ToString example_runtime (Str ''42a'') = Inr ''42a''"
    by simp
  have s3: "isl (ToString example_runtime (Obj [(''toString'', Str ''x'')]))"
    by simp
  show ?thesis
    using equals_numeric_aware [of "Num (Fin 42)" example_runtime "Str ''42''" "Fin 42"]
          equals_numeric_aware [of "Num (Fin 42)" example_runtime "Str ''42a''" _ "''42''" "''42a''"]
          equals_numeric_aware [of "Num (Fin 42)" example_runtime "Obj [(''toString'', Str ''x'')]"]
          n1 n2 n3 s1 s2 s3
    by (simp add: isNaN_def)
qed

lemma evaluateCondition_unfold:
  assumes "getVariableValue rt pg (actual c) ei = Inr a"
    and "ToString rt a = Inr s" and "ToString rt (expected c) = Inr t"
  shows "evaluateCondition rt pg c ei = evaluateComparison rt (comparison c) a (expected c)"
  using assms by (simp add: evaluateCondition_def)

text \<open>
  Claim C5, as stated: with the \<^verbatim>\<open>matchesRegex\<close> operator the evaluation of a
  condition never throws. The \<^verbatim>\<open>try\<close> of \<^verbatim>\<open>evaluateCondition\<close> encloses the
  construction of the pattern and the test only. A payload value \<^verbatim>\<open>{toString: "x"}\<close>
  makes the template literal of the debug message throw before the \<^verbatim>\<open>switch\<close>, and
  a payload key \<^verbatim>\<open>hasOwnProperty\<close> makes the lookup of the variable throw.
\<close>

theorem matchesRegex_condition_throws:
  "evaluateCondition example_runtime example_page (category_condition ''matchesRegex'' (Str ''sho''))
     \<lparr>ei_eventName = Str ''click'',
      dataLayerData = [(''category'', Obj [(''toString'', Str ''x'')])]\<rparr> = Inl TypeError
   \<and> evaluateCondition example_runtime example_page (category_condition ''matchesRegex'' (Str ''sho''))
     \<lparr>ei_eventName = Str ''click'',
      dataLayerData = [(''hasOwnProperty'', Str ''x''), (''category'', Str ''shoes'')]\<rparr> = Inl TypeError
   \<and> evaluateCondition example_runtime example_page
       (category_condition ''matchesRegex'' (Obj [(''toString'', Str ''x'')])) shoes_event
       = Inl TypeError"
  by (simp add: evaluateCondition_def getVariableValue_def getNestedDataLayerValue_def
        call_hasOwnProperty_def category_condition_def shoes_event_def)

text \<open>
  Claim C5, for the part of the evaluation the \<^verbatim>\<open>try\<close> encloses. The
  \<^verbatim>\<open>matchesRegex\<close> case of the \<^verbatim>\<open>switch\<close> returns a boolean for every actual and
  expected value, and the boolean is false when \<^verbatim>\<open>new RegExp\<close> throws on the
  expected value. A condition with that operator therefore returns, and returns false on
  an invalid pattern, whenever the lookup of its variable returns and the two string
  conversions of the debug message do; it throws in no other case.
\<close>

theorem matchesRegex_never_throws:
  "(\<exists>b. evaluateComparison rt ''matchesRegex'' a e = Inr b)
   \<and> (RegExp_new rt e = Inl err \<longrightarrow> evaluateComparison rt ''matchesRegex'' a e = Inr False)
   \<and> (comparison c = ''matchesRegex'' \<and> getVariableValue rt pg (actual c) ei = Inr v
        \<and> ToString rt v = Inr s \<and> ToString rt (expected c) = Inr t \<longrightarrow>
        (\<exists>b. evaluateCondition rt pg c ei = Inr b)
        \<and> (RegExp_compile rt (if expected c = Undefined then [] else t) = None \<longrightarrow>
             evaluateCondition rt pg c ei = Inr False))"
proof (intro conjI impI)
  show "\<exists>b. evaluateComparison rt ''matchesRegex'' a e = Inr b"
    using matchesRegex_returns [of rt a e]
    by (cases "evaluateComparison rt ''matchesRegex'' a e") simp_all
next
  assume "RegExp_new rt e = Inl err"
  then show "evaluateComparison rt ''matchesRegex'' a e = Inr False"
    by (rule matchesRegex_invalid)
next
  assume h: "comparison c = ''matchesRegex'' \<and> getVariableValue rt pg (actual c) ei = Inr v
        \<and> ToString rt v = Inr s \<and> ToString rt (expected c) = Inr t"
  then have u: "evaluateCondition rt pg c ei = evaluateComparison rt ''matchesRegex'' v (expected c)"
    using evaluateCondition_unfold [of rt pg c ei v s t] by simp
  show "\<exists>b. evaluateCondition rt pg c ei = Inr b"
    using matchesRegex_returns [of rt v "expected c"] u
    by (cases "evaluateComparison rt ''matchesRegex'' v (expected c)") simp_all
  assume "RegExp_compile rt (if expected c = Undefined then [] else t) = None"
  with h have "RegExp_new rt (expected c) = Inl SyntaxError"
    by (cases "expected c = Undefined") (simp_all add: RegExp_new_def)
  then show "evaluateCondition rt pg c ei = Inr False"
    using u matchesRegex_invalid [of rt "expected c" SyntaxError v] by simp
qed

text \<open>
  The pattern \<^verbatim>\<open>(\<close> is rejected by the example engine; the comparison and the
  condition on \<^verbatim>\<open>{category: "shoes"}\<close> give false.
\<close>

theorem matchesRegex_never_throws_witness:
  "RegExp_new example_runtime (Str ''('') = Inl SyntaxError
   \<and> evaluateComparison example_runtime ''matchesRegex'' (Str ''abc'') (Str ''('') = Inr False
   \<and> evaluateCondition example_runtime example_page
       (category_condition ''matchesRegex'' (Str ''('')) shoes_event = Inr False"
proof -
  have h: "RegExp_new example_runtime (Str ''('') = Inl SyntaxError"
    by (simp add: RegExp_new_def example_runtime_def example_RegExp_compile_def is_alnum_def)
  have c: "RegExp_compile example_runtime ''('' = None"
    by (simp add: example_runtime_def example_RegExp_compile_def is_alnum_def)
  have g: "getVariableValue example_runtime example_page
             (actual (category_condition ''matchesRegex'' (Str ''(''))) shoes_event = Inr (Str ''shoes'')"
    by (simp add: getVariableValue_def getNestedDataLayerValue_def call_hasOwnProperty_def
          category_condition_def shoes_event_def)
  have k: "comparison (category_condition ''matchesRegex'' (Str ''('')) = ''matchesRegex''"
          "expected (category_condition ''matchesRegex'' (Str ''('')) = Str ''(''"
    by (simp_all add: category_condition_def)
  from matchesRegex_never_throws
         [of example_runtime "Str ''abc''" "Str ''(''" SyntaxError
             "category_condition ''matchesRegex'' (Str ''('')" example_page shoes_event
             "Str ''shoes''" "''shoes''" "''(''"]
       h c g k
  show ?thesis by simp
qed

subsection \<open>Variable Resolver\<close>

text \<open>
  Claim C6, as stated: a variable whose type is neither \<^verbatim>\<open>DataLayer\<close> nor
  \<^verbatim>\<open>PageUrl\<close> resolves to its \<^verbatim>\<open>defaultValue\<close>, whatever that value is. The
  resolver returns \<^verbatim>\<open>defaultValue || null\<close>: for the default 0 of a constant it
  returns \<^verbatim>\<open>null\<close>.
\<close>

theorem getVariableValue_default_counterexample:
  "getVariableValue example_runtime example_page
     (Some \<lparr>vtype = ''Constant'', dataLayerName = None, defaultValue = Num (Fin 0)\<rparr>)
     \<lparr>ei_eventName = Str ''click'', dataLayerData = []\<rparr> = Inr Null
   \<and> getVariableValue example_runtime example_page
     (Some \<lparr>vtype = ''Constant'', dataLayerName = None, defaultValue = Num (Fin 0)\<rparr>)
     \<lparr>ei_eventName = Str ''click'', dataLayerData = []\<rparr> \<noteq> Inr (Num (Fin 0))"
  by (simp add: getVariableValue_def js_or_def)

text \<open>
  Claim C6, amended. For a variable of any type other than \<^verbatim>\<open>DataLayer\<close> and
  \<^verbatim>\<open>PageUrl\<close> the resolver looks nothing up in the event context or the page: it
  returns \<^verbatim>\<open>defaultValue\<close> when that value is truthy and \<^verbatim>\<open>null\<close> otherwise.
\<close>

theorem getVariableValue_default:
  "vtype v \<noteq> ''DataLayer'' \<Longrightarrow> vtype v \<noteq> ''PageUrl'' \<Longrightarrow>
     getVariableValue rt pg (Some v) ei
       = Inr (if truthy (defaultValue v) then defaultValue v else Null)"
  by (simp add: getVariableValue_def js_or_def)

theorem getVariableValue_default_witness:
  "getVariableValue example_runtime example_page
     (Some \<lparr>vtype = ''Constant'', dataLayerName = None, defaultValue = Str ''shop''\<rparr>)
     \<lparr>ei_eventName = Str ''click'', dataLayerData = []\<rparr> = Inr (Str ''shop'')"
  using getVariableValue_default
          [of "\<lparr>vtype = ''Constant'', dataLayerName = None, defaultValue = Str ''shop''\<rparr>"
              example_runtime example_page "\<lparr>ei_eventName = Str ''click'', dataLayerData = []\<rparr>"]
  by simp

subsection \<open>Content script: presentation cache\<close>

lemma isExactDuplicate_suppressed: 
  "fst (isExactDuplicate rt now nc e s) \<Longrightarrow> snd (isExactDuplicate rt now nc e s) = s"
  by (simp add: isExactDuplicate_def split: if_splits)

lemma isExactDuplicate_recorded:
  "\<not> fst (isExactDuplicate rt now nc e s) \<Longrightarrow>
     recentEvents (snd (isExactDuplicate rt now nc e s)) (eventJson rt e) =
       (if nc - now > DUPLICATE_TIMEOUT then None
        else Some \<lparr>r_timestamp = now, hadArrayIndex = (arrayIndex e \<noteq> None)\<rparr>)"
  by (simp add: isExactDuplicate_def cleanupEventCaches_def split: if_splits)

lemma isExactDuplicate_fst:
  "fst (isExactDuplicate rt now nc e s) =
     (case recentEvents s (eventJson rt e) of
        None \<Rightarrow> False
      | Some lastSeen \<Rightarrow> now - r_timestamp lastSeen < DUPLICATE_TIMEOUT
                          \<and> hadArrayIndex lastSeen \<noteq> (arrayIndex e \<noteq> None))"
  by (simp add: isExactDuplicate_def)

lemma isExactDuplicate_other_fields:
  "eventLog (snd (isExactDuplicate rt now nc e s)) = eventLog s"
  "maxEvents (snd (isExactDuplicate rt now nc e s)) = maxEvents s"
  "suppressedDuplicates (snd (isExactDuplicate rt now nc e s)) = suppressedDuplicates s"
  "expandedStates (snd (isExactDuplicate rt now nc e s)) = expandedStates s"
  "consoleLoggingEnabled (snd (isExactDuplicate rt now nc e s)) = consoleLoggingEnabled s"
  by (simp_all add: isExactDuplicate_def cleanupEventCaches_def)

lemma updateConfiguration_fields:
  "recentEvents (updateConfiguration c s) = recentEvents s"
  "eventLog (updateConfiguration c s) = eventLog s"
  "suppressedDuplicates (updateConfiguration c s) = suppressedDuplicates s"
  "maxEvents (updateConfiguration c s) = effectiveMaxEvents c"
  "expandedStates (updateConfiguration c s) = expandedStates s"
  "consoleLoggingEnabled (updateConfiguration c s) = consoleLogging c"
  by (simp_all add: updateConfiguration_def)

lemma storeContainerInfo_fields:
  assumes "storeContainerInfo rt e s = Inr s'"
  shows "recentEvents s' = recentEvents s"
    and "eventLog s' = eventLog s"
    and "suppressedDuplicates s' = suppressedDuplicates s"
    and "maxEvents s' = maxEvents s"
    and "expandedStates s' = expandedStates s"
    and "consoleLoggingEnabled s' = consoleLoggingEnabled s"
proof -
  have "s' = s \<or> s' = s\<lparr>globalContainerInfo := containerInfo e\<rparr>"
    using assms
    by (cases "nonEmpty rt (containerInfo e)") (auto simp: storeContainerInfo_def split: if_splits)
  then show "recentEvents s' = recentEvents s"
    and "eventLog s' = eventLog s"
    and "suppressedDuplicates s' = suppressedDuplicates s"
    and "maxEvents s' = maxEvents s"
    and "expandedStates s' = expandedStates s"
    and "consoleLoggingEnabled s' = consoleLoggingEnabled s"
    by auto
qed

lemma effectiveMaxEvents_pos: "Suc 0 \<le> effectiveMaxEvents c"
  by (simp add: effectiveMaxEvents_def MAX_EVENTS_def)

lemma cleanupEventLog_log:
  "eventLog (cleanupEventLog rt s) = drop (length (eventLog s) - maxEvents s) (eventLog s)"
  by (simp add: cleanupEventLog_def Let_def)

lemma cleanupEventLog_fields:
  "maxEvents (cleanupEventLog rt s) = maxEvents s"
  "suppressedDuplicates (cleanupEventLog rt s) = suppressedDuplicates s"
  "recentEvents (cleanupEventLog rt s) = recentEvents s"
  by (simp_all add: cleanupEventLog_def Let_def)

lemma cleanupEventLog_expanded:
  "r \<in> set (take (length (eventLog s) - maxEvents s) (eventLog s)) \<Longrightarrow>
     expandedStates (cleanupEventLog rt s) (eventId rt r) = None"
  by (auto simp add: cleanupEventLog_def Let_def)

lemma addToEventLog_log:
  "eventLog (addToEventLog rt e s) =
     sort_key timestamp (drop (Suc (length (eventLog s)) - maxEvents s) (eventLog s @ [e]))"
  by (simp add: addToEventLog_def Let_def cleanupExpandedStates_def checkVirtualization_def
        cleanupEventLog_log)

lemma addToEventLog_fields:
  "maxEvents (addToEventLog rt e s) = maxEvents s"
  "suppressedDuplicates (addToEventLog rt e s) = suppressedDuplicates s"
  "recentEvents (addToEventLog rt e s) = recentEvents s"
  by (simp_all add: addToEventLog_def Let_def cleanupExpandedStates_def checkVirtualization_def
        cleanupEventLog_fields)

lemma addToEventLog_expanded:
  assumes "r \<in> set (take (Suc (length (eventLog s)) - maxEvents s) (eventLog s @ [e]))"
  shows "expandedStates (addToEventLog rt e s) (eventId rt r) = None"
proof -
  let ?s4 = "s\<lparr>eventLog := eventLog s @ [e]\<rparr>"
  have "r \<in> set (take (length (eventLog ?s4) - maxEvents ?s4) (eventLog ?s4))"
    using assms by simp
  then have "expandedStates (cleanupEventLog rt ?s4) (eventId rt r) = None"
    by (rule cleanupEventLog_expanded)
  then show ?thesis
    by (simp add: addToEventLog_def Let_def cleanupExpandedStates_def checkVirtualization_def)
qed

lemma addToEventLog_member:
  assumes "Suc 0 \<le> maxEvents s"
  shows "e \<in> set (eventLog (addToEventLog rt e s))"
proof -
  have "Suc (length (eventLog s)) - maxEvents s \<le> length (eventLog s)"
    using assms by arith
  then have "drop (Suc (length (eventLog s)) - maxEvents s) (eventLog s @ [e])
               = drop (Suc (length (eventLog s)) - maxEvents s) (eventLog s) @ [e]"
    by simp
  then show ?thesis by (simp add: addToEventLog_log)
qed

text \<open>The ways through the listener.\<close>

lemma listener_disabled:
  "\<not> watchMTM (cfg d) \<Longrightarrow> \<not> watchDataLayer (cfg d) \<Longrightarrow>
     onMatomoEventDetected rt d s = (None, updateConfiguration (cfg d) s)"
  by (simp add: onMatomoEventDetected_def)

lemma listener_enabled:
  assumes "watchMTM (cfg d) \<or> watchDataLayer (cfg d)"
  shows "onMatomoEventDetected rt d s =
     (case toISOString (if hasCustomTimestamp d then the (customTimestamp d) else now_date d) of
        Inl err \<Rightarrow> (Some err, updateConfiguration (cfg d) s)
      | Inr stamp \<Rightarrow>
          (case storeContainerInfo rt (detail d) (updateConfiguration (cfg d) s) of
             Inl err \<Rightarrow> (Some err, updateConfiguration (cfg d) s)
           | Inr s2 \<Rightarrow>
               if fst (isExactDuplicate rt (now_dup d) (now_cleanup d) (data (listenerEventData d)) s2)
               then (None, (snd (isExactDuplicate rt (now_dup d) (now_cleanup d)
                                   (data (listenerEventData d)) s2))
                             \<lparr>suppressedDuplicates :=
                                suppressedDuplicates
                                  (snd (isExactDuplicate rt (now_dup d) (now_cleanup d)
                                          (data (listenerEventData d)) s2)) + 1\<rparr>)
               else (case logEventToConsole rt (listenerEventData d)
                            (snd (isExactDuplicate rt (now_dup d) (now_cleanup d)
                                    (data (listenerEventData d)) s2)) of
                       Inl err \<Rightarrow>
                         (Some err, snd (isExactDuplicate rt (now_dup d) (now_cleanup d)
                                           (data (listenerEventData d)) s2))
                     | Inr u \<Rightarrow>
                         (None, addToEventLog rt (listenerEventData d)
                                  (snd (isExactDuplicate rt (now_dup d) (now_cleanup d)
                                          (data (listenerEventData d)) s2))))))"
proof -
  have w: "(\<not> watchMTM (cfg d) \<and> \<not> watchDataLayer (cfg d)) = False"
    using assms by blast
  show ?thesis
    unfolding onMatomoEventDetected_def Let_def w case_prod_beta
    by (simp split: sum.split)
qed

lemma listener_outcome:
  assumes "watchMTM (cfg d) \<or> watchDataLayer (cfg d)"
  shows "(\<exists>err. onMatomoEventDetected rt d s = (Some err, updateConfiguration (cfg d) s))
       \<or> (\<exists>s2. storeContainerInfo rt (detail d) (updateConfiguration (cfg d) s) = Inr s2
             \<and> (if fst (isExactDuplicate rt (now_dup d) (now_cleanup d) (data (listenerEventData d)) s2)
                then onMatomoEventDetected rt d s
                       = (None, s2\<lparr>suppressedDuplicates := suppressedDuplicates s2 + 1\<rparr>)
                else (\<exists>err. onMatomoEventDetected rt d s
                              = (Some err, snd (isExactDuplicate rt (now_dup d) (now_cleanup d)
                                                  (data (listenerEventData d)) s2)))
                     \<or> onMatomoEventDetected rt d s
                         = (None, addToEventLog rt (listenerEventData d)
                                    (snd (isExactDuplicate rt (now_dup d) (now_cleanup d)
                                            (data (listenerEventData d)) s2)))))"
proof (cases "toISOString (if hasCustomTimestamp d then the (customTimestamp d) else now_date d)")
  case (Inl err)
  then show ?thesis by (simp add: listener_enabled [OF assms])
next
  case stamp: (Inr t)
  show ?thesis
  proof (cases "storeContainerInfo rt (detail d) (updateConfiguration (cfg d) s)")
    case (Inl err)
    then show ?thesis using stamp by (simp add: listener_enabled [OF assms])
  next
    case (Inr s2)
    let ?q = "isExactDuplicate rt (now_dup d) (now_cleanup d) (data (listenerEventData d)) s2"
    show ?thesis
    proof (cases "fst ?q")
      case True
      then have "snd ?q = s2" by (rule isExactDuplicate_suppressed)
      then show ?thesis using stamp Inr True by (simp add: listener_enabled [OF assms])
    next
      case False
      then show ?thesis using stamp Inr
        by (cases "logEventToConsole rt (listenerEventData d) (snd ?q)")
           (simp_all add: listener_enabled [OF assms])
    qed
  qed
qed

lemma isExactDuplicate_cache:
  "recentEvents a = recentEvents b \<Longrightarrow>
     fst (isExactDuplicate rt now nc e a) = fst (isExactDuplicate rt now nc e b)"
  by (simp add: isExactDuplicate_fst)

text \<open>
  What a delivery with monitoring on leaves behind, by the result of the callback and by
  what the duplicate check finds in the cache.
\<close>

lemma listener_facts:
  assumes w: "watchMTM (cfg d) \<or> watchDataLayer (cfg d)"
  shows "maxEvents (snd (onMatomoEventDetected rt d s)) = effectiveMaxEvents (cfg d)"
    and "fst (onMatomoEventDetected rt d s) = None \<Longrightarrow>
           fst (isExactDuplicate rt (now_dup d) (now_cleanup d) (data (listenerEventData d)) s) \<Longrightarrow>
           eventLog (snd (onMatomoEventDetected rt d s)) = eventLog s
           \<and> expandedStates (snd (onMatomoEventDetected rt d s)) = expandedStates s
           \<and> suppressedDuplicates (snd (onMatomoEventDetected rt d s)) = suppressedDuplicates s + 1
           \<and> recentEvents (snd (onMatomoEventDetected rt d s)) = recentEvents s"
    and "fst (onMatomoEventDetected rt d s) = None \<Longrightarrow>
           \<not> fst (isExactDuplicate rt (now_dup d) (now_cleanup d) (data (listenerEventData d)) s) \<Longrightarrow>
           eventLog (snd (onMatomoEventDetected rt d s))
             = sort_key timestamp
                 (drop (Suc (length (eventLog s)) - effectiveMaxEvents (cfg d))
                    (eventLog s @ [listenerEventData d]))
           \<and> (\<forall>x \<in> set (take (Suc (length (eventLog s)) - effectiveMaxEvents (cfg d))
                             (eventLog s @ [listenerEventData d])).
                 expandedStates (snd (onMatomoEventDetected rt d s)) (eventId rt x) = None)
           \<and> suppressedDuplicates (snd (onMatomoEventDetected rt d s)) = suppressedDuplicates s
           \<and> recentEvents (snd (onMatomoEventDetected rt d s))
                (eventJson rt (data (listenerEventData d)))
               = (if now_cleanup d - now_dup d > DUPLICATE_TIMEOUT then None
                  else Some \<lparr>r_timestamp = now_dup d,
                             hadArrayIndex = (arrayIndex (data (listenerEventData d)) \<noteq> None)\<rparr>)"
    and "fst (onMatomoEventDetected rt d s) \<noteq> None \<Longrightarrow>
           eventLog (snd (onMatomoEventDetected rt d s)) = eventLog s
           \<and> expandedStates (snd (onMatomoEventDetected rt d s)) = expandedStates s
           \<and> suppressedDuplicates (snd (onMatomoEventDetected rt d s)) = suppressedDuplicates s"
proof -
  let ?r = "onMatomoEventDetected rt d s"
  let ?s1 = "updateConfiguration (cfg d) s"
  let ?ev = "listenerEventData d"
  let ?dup = "fst (isExactDuplicate rt (now_dup d) (now_cleanup d) (data ?ev) s)"
  let ?M = "effectiveMaxEvents (cfg d)"
  let ?new = "sort_key timestamp (drop (Suc (length (eventLog s)) - ?M) (eventLog s @ [?ev]))"
  let ?rec = "if now_cleanup d - now_dup d > DUPLICATE_TIMEOUT then None
              else Some \<lparr>r_timestamp = now_dup d, hadArrayIndex = (arrayIndex (data ?ev) \<noteq> None)\<rparr>"
  note out = listener_outcome [OF w, of rt s]
  have early: "maxEvents (snd ?r) = ?M \<and> fst ?r \<noteq> None \<and> eventLog (snd ?r) = eventLog s
                 \<and> expandedStates (snd ?r) = expandedStates s
                 \<and> suppressedDuplicates (snd ?r) = suppressedDuplicates s"
    if "?r = (Some err, ?s1)" for err
    using that by (simp add: updateConfiguration_fields)
  have late: "maxEvents (snd ?r) = ?M
          \<and> (fst ?r = None \<longrightarrow> ?dup \<longrightarrow>
                eventLog (snd ?r) = eventLog s \<and> expandedStates (snd ?r) = expandedStates s
                \<and> suppressedDuplicates (snd ?r) = suppressedDuplicates s + 1
                \<and> recentEvents (snd ?r) = recentEvents s)
          \<and> (fst ?r = None \<longrightarrow> \<not> ?dup \<longrightarrow>
                eventLog (snd ?r) = ?new
                \<and> (\<forall>x \<in> set (take (Suc (length (eventLog s)) - ?M) (eventLog s @ [?ev])).
                      expandedStates (snd ?r) (eventId rt x) = None)
                \<and> suppressedDuplicates (snd ?r) = suppressedDuplicates s
                \<and> recentEvents (snd ?r) (eventJson rt (data ?ev)) = ?rec)
          \<and> (fst ?r \<noteq> None \<longrightarrow>
                eventLog (snd ?r) = eventLog s \<and> expandedStates (snd ?r) = expandedStates s
                \<and> suppressedDuplicates (snd ?r) = suppressedDuplicates s)"
    if st: "storeContainerInfo rt (detail d) ?s1 = Inr s2"
      and alt: "if fst (isExactDuplicate rt (now_dup d) (now_cleanup d) (data ?ev) s2)
                then ?r = (None, s2\<lparr>suppressedDuplicates := suppressedDuplicates s2 + 1\<rparr>)
                else (\<exists>err. ?r = (Some err, snd (isExactDuplicate rt (now_dup d) (now_cleanup d)
                                                  (data ?ev) s2)))
                     \<or> ?r = (None, addToEventLog rt ?ev
                                    (snd (isExactDuplicate rt (now_dup d) (now_cleanup d)
                                            (data ?ev) s2)))"
    for s2
  proof -
    let ?q = "isExactDuplicate rt (now_dup d) (now_cleanup d) (data ?ev) s2"
    have f2: "recentEvents s2 = recentEvents s" "eventLog s2 = eventLog s"
        "suppressedDuplicates s2 = suppressedDuplicates s" "maxEvents s2 = ?M"
        "expandedStates s2 = expandedStates s"
      using storeContainerInfo_fields [OF st] by (simp_all add: updateConfiguration_fields)
    have dq: "fst ?q = ?dup" using f2(1) by (rule isExactDuplicate_cache)
    show ?thesis
    proof (cases "fst ?q")
      case True
      with alt have "?r = (None, s2\<lparr>suppressedDuplicates := suppressedDuplicates s2 + 1\<rparr>)" by simp
      then show ?thesis using True dq f2 by simp
    next
      case False
      have q3: "eventLog (snd ?q) = eventLog s" "maxEvents (snd ?q) = ?M"
          "suppressedDuplicates (snd ?q) = suppressedDuplicates s"
          "expandedStates (snd ?q) = expandedStates s"
        by (simp_all add: isExactDuplicate_other_fields f2)
      have rec: "recentEvents (snd ?q) (eventJson rt (data ?ev)) = ?rec"
        using False by (rule isExactDuplicate_recorded)
      from alt False have "(\<exists>err. ?r = (Some err, snd ?q)) \<or> ?r = (None, addToEventLog rt ?ev (snd ?q))"
        by simp
      then show ?thesis
      proof
        assume "\<exists>err. ?r = (Some err, snd ?q)"
        then obtain err where "?r = (Some err, snd ?q)" by blast
        then have nn: "(fst ?r = None) = False" and sn: "snd ?r = snd ?q" by simp_all
        show ?thesis unfolding nn sn using q3 by simp
      next
        assume a: "?r = (None, addToEventLog rt ?ev (snd ?q))"
        have ex: "\<forall>x \<in> set (take (Suc (length (eventLog s)) - ?M) (eventLog s @ [?ev])).
                    expandedStates (addToEventLog rt ?ev (snd ?q)) (eventId rt x) = None"
          using addToEventLog_expanded [of _ "snd ?q" ?ev rt] by (simp add: q3)
        show ?thesis
          using False dq a ex rec
          by (simp add: addToEventLog_log addToEventLog_fields q3)
      qed
    qed
  qed
  have all: "maxEvents (snd ?r) = ?M
          \<and> (fst ?r = None \<longrightarrow> ?dup \<longrightarrow>
                eventLog (snd ?r) = eventLog s \<and> expandedStates (snd ?r) = expandedStates s
                \<and> suppressedDuplicates (snd ?r) = suppressedDuplicates s + 1
                \<and> recentEvents (snd ?r) = recentEvents s)
          \<and> (fst ?r = None \<longrightarrow> \<not> ?dup \<longrightarrow>
                eventLog (snd ?r) = ?new
                \<and> (\<forall>x \<in> set (take (Suc (length (eventLog s)) - ?M) (eventLog s @ [?ev])).
                      expandedStates (snd ?r) (eventId rt x) = None)
                \<and> suppressedDuplicates (snd ?r) = suppressedDuplicates s
                \<and> recentEvents (snd ?r) (eventJson rt (data ?ev)) = ?rec)
          \<and> (fst ?r \<noteq> None \<longrightarrow>
                eventLog (snd ?r) = eventLog s \<and> expandedStates (snd ?r) = expandedStates s
                \<and> suppressedDuplicates (snd ?r) = suppressedDuplicates s)"
    using out
  proof
    assume "\<exists>err. ?r = (Some err, ?s1)"
    then obtain err where "?r = (Some err, ?s1)" by blast
    from early [OF this] show ?thesis by blast
  next
    assume "\<exists>s2. storeContainerInfo rt (detail d) ?s1 = Inr s2
             \<and> (if fst (isExactDuplicate rt (now_dup d) (now_cleanup d) (data ?ev) s2)
                then ?r = (None, s2\<lparr>suppressedDuplicates := suppressedDuplicates s2 + 1\<rparr>)
                else (\<exists>err. ?r = (Some err, snd (isExactDuplicate rt (now_dup d) (now_cleanup d)
                                                  (data ?ev) s2)))
                     \<or> ?r = (None, addToEventLog rt ?ev
                                    (snd (isExactDuplicate rt (now_dup d) (now_cleanup d)
                                            (data ?ev) s2))))"
    then obtain s2 where "storeContainerInfo rt (detail d) ?s1 = Inr s2"
      and "if fst (isExactDuplicate rt (now_dup d) (now_cleanup d) (data ?ev) s2)
                then ?r = (None, s2\<lparr>suppressedDuplicates := suppressedDuplicates s2 + 1\<rparr>)
                else (\<exists>err. ?r = (Some err, snd (isExactDuplicate rt (now_dup d) (now_cleanup d)
                                                  (data ?ev) s2)))
                     \<or> ?r = (None, addToEventLog rt ?ev
                                    (snd (isExactDuplicate rt (now_dup d) (now_cleanup d)
                                            (data ?ev) s2)))"
      by blast
    then show ?thesis by (rule late)
  qed
  show "maxEvents (snd ?r) = ?M" using all by blast
  show "fst ?r = None \<Longrightarrow> ?dup \<Longrightarrow>
           eventLog (snd ?r) = eventLog s \<and> expandedStates (snd ?r) = expandedStates s
           \<and> suppressedDuplicates (snd ?r) = suppressedDuplicates s + 1
           \<and> recentEvents (snd ?r) = recentEvents s"
    using all by blast
  show "fst ?r = None \<Longrightarrow> \<not> ?dup \<Longrightarrow>
           eventLog (snd ?r) = ?new
           \<and> (\<forall>x \<in> set (take (Suc (length (eventLog s)) - ?M) (eventLog s @ [?ev])).
                 expandedStates (snd ?r) (eventId rt x) = None)
           \<and> suppressedDuplicates (snd ?r) = suppressedDuplicates s
           \<and> recentEvents (snd ?r) (eventJson rt (data ?ev)) = ?rec"
    using all by blast
  show "fst ?r \<noteq> None \<Longrightarrow>
           eventLog (snd ?r) = eventLog s \<and> expandedStates (snd ?r) = expandedStates s
           \<and> suppressedDuplicates (snd ?r) = suppressedDuplicates s"
    using all by blast
qed

lemma listener_dropped_iff:
  assumes w: "watchMTM (cfg d) \<or> watchDataLayer (cfg d)"
    and ok: "fst (onMatomoEventDetected rt d s) = None"
  shows "(suppressedDuplicates (snd (onMatomoEventDetected rt d s)) = suppressedDuplicates s + 1)
           = fst (isExactDuplicate rt (now_dup d) (now_cleanup d) (data (listenerEventData d)) s)"
    and "(suppressedDuplicates (snd (onMatomoEventDetected rt d s)) = suppressedDuplicates s)
           = (\<not> fst (isExactDuplicate rt (now_dup d) (now_cleanup d) (data (listenerEventData d)) s))"
  using listener_facts(2) [OF w ok] listener_facts(3) [OF w ok]
  by (cases "fst (isExactDuplicate rt (now_dup d) (now_cleanup d) (data (listenerEventData d)) s)";
      simp)+

lemma listener_not_counted:
  assumes w: "watchMTM (cfg d) \<or> watchDataLayer (cfg d)"
    and nd: "\<not> fst (isExactDuplicate rt (now_dup d) (now_cleanup d) (data (listenerEventData d)) s)"
  shows "suppressedDuplicates (snd (onMatomoEventDetected rt d s)) = suppressedDuplicates s"
    and "fst (onMatomoEventDetected rt d s) = None \<Longrightarrow>
           listenerEventData d \<in> set (eventLog (snd (onMatomoEventDetected rt d s)))"
proof -
  let ?r = "onMatomoEventDetected rt d s"
  show "suppressedDuplicates (snd ?r) = suppressedDuplicates s"
    using listener_facts(3) [OF w _ nd] listener_facts(4) [OF w, of rt s]
    by (cases "fst ?r = None") simp_all
  assume ok: "fst ?r = None"
  let ?M = "effectiveMaxEvents (cfg d)"
  have "Suc (length (eventLog s)) - ?M \<le> length (eventLog s)"
    using effectiveMaxEvents_pos [of "cfg d"] by arith
  then have "drop (Suc (length (eventLog s)) - ?M) (eventLog s @ [listenerEventData d])
               = drop (Suc (length (eventLog s)) - ?M) (eventLog s) @ [listenerEventData d]"
    by simp
  then show "listenerEventData d \<in> set (eventLog (snd ?r))"
    using listener_facts(3) [OF w ok nd] by simp
qed





text \<open>
  Claim C10. When \<^verbatim>\<open>isExactDuplicate\<close> answers true it leaves the whole state, and so
  the cache entry of the signature (timestamp and index flag), as it found it. When it
  answers false it has written the entry of the signature with the current clock reading
  and the index presence of this delivery (the entry is still there after the cleanup of
  the same call unless that cleanup reads the clock more than 2000 ms later).
\<close>

theorem isExactDuplicate_suppressed_no_update:
  "(fst (isExactDuplicate rt now nc e s) \<longrightarrow> snd (isExactDuplicate rt now nc e s) = s)
   \<and> (\<not> fst (isExactDuplicate rt now nc e s) \<longrightarrow>
        recentEvents (snd (isExactDuplicate rt now nc e s)) (eventJson rt e) =
          (if nc - now > DUPLICATE_TIMEOUT then None
           else Some \<lparr>r_timestamp = now, hadArrayIndex = (arrayIndex e \<noteq> None)\<rparr>))"
  using isExactDuplicate_suppressed isExactDuplicate_recorded by blast

text \<open>
  The entry recorded at time 1000 for the indexed click event. The same event without an
  index at time 2500 is a duplicate and the cache is unchanged; so at time 3100, more
  than 2000 ms after the recorded delivery but less than 2000 ms after the suppressed
  one, the event without an index is no duplicate any more.
\<close>

theorem isExactDuplicate_suppressed_no_update_witness:
  "fst (isExactDuplicate example_runtime 2500 2500 (example_event None)
         (snd (isExactDuplicate example_runtime 1000 1000 (example_event (Some 0)) initial_consumer)))
   \<and> snd (isExactDuplicate example_runtime 2500 2500 (example_event None)
         (snd (isExactDuplicate example_runtime 1000 1000 (example_event (Some 0)) initial_consumer)))
       = snd (isExactDuplicate example_runtime 1000 1000 (example_event (Some 0)) initial_consumer)
   \<and> \<not> fst (isExactDuplicate example_runtime 3100 3100 (example_event None)
         (snd (isExactDuplicate example_runtime 2500 2500 (example_event None)
           (snd (isExactDuplicate example_runtime 1000 1000 (example_event (Some 0)) initial_consumer)))))"
proof -
  let ?s1 = "snd (isExactDuplicate example_runtime 1000 1000 (example_event (Some 0)) initial_consumer)"
  have sig: "eventJson example_runtime (example_event None) = eventJson example_runtime (example_event (Some 0))"
    by (simp add: eventJson_def example_event_def named_event_def)
  have n1: "\<not> fst (isExactDuplicate example_runtime 1000 1000 (example_event (Some 0)) initial_consumer)"
    by (simp add: isExactDuplicate_fst initial_consumer_def)
  have r1: "recentEvents ?s1 (eventJson example_runtime (example_event (Some 0)))
              = Some \<lparr>r_timestamp = 1000, hadArrayIndex = True\<rparr>"
    using isExactDuplicate_recorded [OF n1]
    by (simp add: DUPLICATE_TIMEOUT_def example_event_def named_event_def)
  have d2: "fst (isExactDuplicate example_runtime 2500 2500 (example_event None) ?s1)"
    using r1 sig
    by (simp add: isExactDuplicate_fst DUPLICATE_TIMEOUT_def example_event_def named_event_def)
  have same: "snd (isExactDuplicate example_runtime 2500 2500 (example_event None) ?s1) = ?s1"
    using isExactDuplicate_suppressed_no_update [of example_runtime 2500 2500 "example_event None" ?s1] d2
    by blast
  have n3: "\<not> fst (isExactDuplicate example_runtime 3100 3100 (example_event None) ?s1)"
    using r1 sig by (simp add: isExactDuplicate_fst DUPLICATE_TIMEOUT_def)
  show ?thesis using d2 same n3 by simp
qed

subsection \<open>Content script: bound on the event log\<close>

lemma listener_stored_log:
  assumes w: "watchMTM (cfg d) \<or> watchDataLayer (cfg d)"
    and ok: "fst (onMatomoEventDetected rt d s) = None"
    and k: "suppressedDuplicates (snd (onMatomoEventDetected rt d s)) = suppressedDuplicates s"
  shows "eventLog (snd (onMatomoEventDetected rt d s))
           = sort_key timestamp
               (drop (Suc (length (eventLog s)) - effectiveMaxEvents (cfg d))
                  (eventLog s @ [listenerEventData d]))"
    and "length (eventLog (snd (onMatomoEventDetected rt d s)))
           = min (effectiveMaxEvents (cfg d)) (Suc (length (eventLog s)))"
    and "\<forall>x \<in> set (take (Suc (length (eventLog s)) - effectiveMaxEvents (cfg d)) (eventLog s)).
           expandedStates (snd (onMatomoEventDetected rt d s)) (eventId rt x) = None"
    and "listenerEventData d \<in> set (eventLog (snd (onMatomoEventDetected rt d s)))"
proof -
  let ?r = "onMatomoEventDetected rt d s"
  let ?M = "effectiveMaxEvents (cfg d)"
  have n: "\<not> fst (isExactDuplicate rt (now_dup d) (now_cleanup d) (data (listenerEventData d)) s)"
    using listener_dropped_iff(2) [OF w ok] k by simp
  note f = listener_facts(3) [OF w ok n]
  show l: "eventLog (snd ?r)
             = sort_key timestamp (drop (Suc (length (eventLog s)) - ?M) (eventLog s @ [listenerEventData d]))"
    using f by simp
  have le: "Suc (length (eventLog s)) - ?M \<le> length (eventLog s)"
    using effectiveMaxEvents_pos [of "cfg d"] by arith
  show "length (eventLog (snd ?r)) = min ?M (Suc (length (eventLog s)))"
    unfolding l using effectiveMaxEvents_pos [of "cfg d"] by simp
  have "take (Suc (length (eventLog s)) - ?M) (eventLog s @ [listenerEventData d])
          = take (Suc (length (eventLog s)) - ?M) (eventLog s)"
    using le by simp
  then show "\<forall>x \<in> set (take (Suc (length (eventLog s)) - ?M) (eventLog s)).
               expandedStates (snd ?r) (eventId rt x) = None"
    using f by simp
  show "listenerEventData d \<in> set (eventLog (snd ?r))"
    using listener_not_counted(2) [OF w n ok] .
qed

lemma listener_unchanged_log:
  assumes "\<not> (watchMTM (cfg d) \<or> watchDataLayer (cfg d))
           \<or> fst (onMatomoEventDetected rt d s) \<noteq> None
           \<or> suppressedDuplicates (snd (onMatomoEventDetected rt d s)) = suppressedDuplicates s + 1"
  shows "eventLog (snd (onMatomoEventDetected rt d s)) = eventLog s"
proof (cases "watchMTM (cfg d) \<or> watchDataLayer (cfg d)")
  case False
  then show ?thesis by (simp add: listener_disabled updateConfiguration_fields)
next
  case w: True
  show ?thesis
  proof (cases "fst (onMatomoEventDetected rt d s) = None")
    case False
    then show ?thesis using listener_facts(4) [OF w] by simp
  next
    case ok: True
    with assms w
    have "suppressedDuplicates (snd (onMatomoEventDetected rt d s)) = suppressedDuplicates s + 1"
      by simp
    then have "fst (isExactDuplicate rt (now_dup d) (now_cleanup d) (data (listenerEventData d)) s)"
      using listener_dropped_iff(1) [OF w ok] by simp
    then show ?thesis using listener_facts(2) [OF w ok] by simp
  qed
qed

lemma listener_maxEvents:
  "maxEvents (snd (onMatomoEventDetected rt d s)) = effectiveMaxEvents (cfg d)"
proof (cases "watchMTM (cfg d) \<or> watchDataLayer (cfg d)")
  case False
  then show ?thesis by (simp add: listener_disabled updateConfiguration_fields)
next
  case True
  then show ?thesis by (rule listener_facts(1))
qed

lemma listener_counts:
  assumes w: "watchMTM (cfg d) \<or> watchDataLayer (cfg d)"
    and ok: "fst (onMatomoEventDetected rt d s) = None"
  shows "suppressedDuplicates (snd (onMatomoEventDetected rt d s)) = suppressedDuplicates s
         \<or> suppressedDuplicates (snd (onMatomoEventDetected rt d s)) = suppressedDuplicates s + 1"
  using listener_dropped_iff [OF w ok] by blast

lemma listener_bound:
  assumes "length (eventLog s) \<le> effectiveMaxEvents (cfg d)"
  shows "length (eventLog (snd (onMatomoEventDetected rt d s))) \<le> effectiveMaxEvents (cfg d)"
proof (cases "(watchMTM (cfg d) \<or> watchDataLayer (cfg d))
              \<and> fst (onMatomoEventDetected rt d s) = None
              \<and> suppressedDuplicates (snd (onMatomoEventDetected rt d s)) = suppressedDuplicates s")
  case True
  then show ?thesis using listener_stored_log(2) [of d rt s] by simp
next
  case False
  have "eventLog (snd (onMatomoEventDetected rt d s)) = eventLog s"
  proof (cases "watchMTM (cfg d) \<or> watchDataLayer (cfg d)")
    case no: False
    then show ?thesis using listener_unchanged_log [of d rt s] by blast
  next
    case w: True
    show ?thesis
    proof (cases "fst (onMatomoEventDetected rt d s) = None")
      case no: False
      then show ?thesis using listener_unchanged_log [of d rt s] by blast
    next
      case ok: True
      with False w listener_counts [OF w ok]
      have "suppressedDuplicates (snd (onMatomoEventDetected rt d s)) = suppressedDuplicates s + 1"
        by blast
      then show ?thesis using listener_unchanged_log [of d rt s] by blast
    qed
  qed
  then show ?thesis using assms by simp
qed

lemma deliverAll_bound:
  "\<forall>d \<in> set ds. effectiveMaxEvents (cfg d) = N \<Longrightarrow> length (eventLog s) \<le> N \<Longrightarrow>
     length (eventLog (deliverAll rt ds s)) \<le> N"
proof (induction ds arbitrary: s)
  case Nil
  then show ?case by (simp add: deliverAll_def)
next
  case (Cons d ds)
  have N: "effectiveMaxEvents (cfg d) = N" using Cons.prems(1) by simp
  have "length (eventLog (snd (onMatomoEventDetected rt d s))) \<le> N"
    using listener_bound [of s d rt] Cons.prems(2) N by simp
  moreover have "\<forall>d \<in> set ds. effectiveMaxEvents (cfg d) = N" using Cons.prems(1) by simp
  ultimately have "length (eventLog (deliverAll rt ds (snd (onMatomoEventDetected rt d s)))) \<le> N"
    by (rule Cons.IH [rotated])
  then show ?case by (simp add: deliverAll_def)
qed

text \<open>
  Claim C9, as stated: after every delivery the log holds at most \<^verbatim>\<open>maxEvents\<close>
  entries. The listener takes \<^verbatim>\<open>maxEvents\<close> from the configuration on every
  delivery and trims the log only when it stores an event. Three events stored under
  \<^verbatim>\<open>maxEvents\<close> 5, then one delivery that reads \<^verbatim>\<open>maxEvents\<close> 2 while
  monitoring is off, or one that is dropped as a duplicate: \<^verbatim>\<open>maxEvents\<close> is 2 and
  the log holds 3 events.
\<close>

theorem eventLog_exceeds_maxEvents:
  "length (eventLog (deliverAll example_runtime
       [named_delivery (DEFAULT_CONFIG\<lparr>cfg_maxEvents := 5\<rparr>) ''a'' None 1000,
        named_delivery (DEFAULT_CONFIG\<lparr>cfg_maxEvents := 5\<rparr>) ''b'' None 1100,
        named_delivery (DEFAULT_CONFIG\<lparr>cfg_maxEvents := 5\<rparr>) ''c'' None 1200,
        named_delivery (DEFAULT_CONFIG\<lparr>cfg_maxEvents := 2, watchMTM := False\<rparr>) ''d'' None 1300]
       initial_consumer)) = 3
   \<and> maxEvents (deliverAll example_runtime
       [named_delivery (DEFAULT_CONFIG\<lparr>cfg_maxEvents := 5\<rparr>) ''a'' None 1000,
        named_delivery (DEFAULT_CONFIG\<lparr>cfg_maxEvents := 5\<rparr>) ''b'' None 1100,
        named_delivery (DEFAULT_CONFIG\<lparr>cfg_maxEvents := 5\<rparr>) ''c'' None 1200,
        named_delivery (DEFAULT_CONFIG\<lparr>cfg_maxEvents := 2, watchMTM := False\<rparr>) ''d'' None 1300]
       initial_consumer) = 2
   \<and> length (eventLog (deliverAll example_runtime
       [named_delivery (DEFAULT_CONFIG\<lparr>cfg_maxEvents := 5\<rparr>) ''a'' None 1000,
        named_delivery (DEFAULT_CONFIG\<lparr>cfg_maxEvents := 5\<rparr>) ''b'' None 1100,
        named_delivery (DEFAULT_CONFIG\<lparr>cfg_maxEvents := 5\<rparr>) ''c'' None 1200,
        named_delivery (DEFAULT_CONFIG\<lparr>cfg_maxEvents := 2\<rparr>) ''c'' (Some 2) 1300]
       initial_consumer)) = 3
   \<and> maxEvents (deliverAll example_runtime
       [named_delivery (DEFAULT_CONFIG\<lparr>cfg_maxEvents := 5\<rparr>) ''a'' None 1000,
        named_delivery (DEFAULT_CONFIG\<lparr>cfg_maxEvents := 5\<rparr>) ''b'' None 1100,
        named_delivery (DEFAULT_CONFIG\<lparr>cfg_maxEvents := 5\<rparr>) ''c'' None 1200,
        named_delivery (DEFAULT_CONFIG\<lparr>cfg_maxEvents := 2\<rparr>) ''c'' (Some 2) 1300]
       initial_consumer) = 2"
  by code_simp

text \<open>
  Claim C9, amended. A delivery that the listener stores (monitoring on, the callback
  ends without exception, the delivery is not counted as a duplicate) leaves the log
  within the \<^verbatim>\<open>maxEvents\<close> it has read from the configuration (1000 when that is
  unset or 0): the log is the old log followed by the new event, without its first
  \<open>length + 1 - maxEvents\<close> entries, sorted by timestamp; the entries removed are
  entries of the old log, their keys in \<^verbatim>\<open>expandedStates\<close> are deleted, and the new
  event is in the log. Every other delivery (monitoring off, an exception, a dropped
  duplicate) leaves the log as it was, whatever \<^verbatim>\<open>maxEvents\<close> it has read. So a
  log within the \<^verbatim>\<open>maxEvents\<close> a delivery reads is within it after the delivery,
  and over any sequence of deliveries that read the same \<^verbatim>\<open>maxEvents\<close> the bound
  is kept.
\<close>

theorem eventLog_bounded:
  "((watchMTM (cfg d) \<or> watchDataLayer (cfg d))
      \<and> fst (onMatomoEventDetected rt d s) = None
      \<and> suppressedDuplicates (snd (onMatomoEventDetected rt d s)) = suppressedDuplicates s \<longrightarrow>
      eventLog (snd (onMatomoEventDetected rt d s))
        = sort_key timestamp
            (drop (Suc (length (eventLog s)) - effectiveMaxEvents (cfg d))
               (eventLog s @ [listenerEventData d]))
      \<and> length (eventLog (snd (onMatomoEventDetected rt d s)))
          = min (effectiveMaxEvents (cfg d)) (Suc (length (eventLog s)))
      \<and> (\<forall>x \<in> set (take (Suc (length (eventLog s)) - effectiveMaxEvents (cfg d)) (eventLog s)).
            expandedStates (snd (onMatomoEventDetected rt d s)) (eventId rt x) = None)
      \<and> listenerEventData d \<in> set (eventLog (snd (onMatomoEventDetected rt d s))))
   \<and> (\<not> (watchMTM (cfg d) \<or> watchDataLayer (cfg d))
        \<or> fst (onMatomoEventDetected rt d s) \<noteq> None
        \<or> suppressedDuplicates (snd (onMatomoEventDetected rt d s)) = suppressedDuplicates s + 1 \<longrightarrow>
        eventLog (snd (onMatomoEventDetected rt d s)) = eventLog s)
   \<and> maxEvents (snd (onMatomoEventDetected rt d s)) = effectiveMaxEvents (cfg d)
   \<and> (effectiveMaxEvents (cfg d) = (if cfg_maxEvents (cfg d) = 0 then 1000 else cfg_maxEvents (cfg d)))
   \<and> (length (eventLog s) \<le> effectiveMaxEvents (cfg d) \<longrightarrow>
        length (eventLog (snd (onMatomoEventDetected rt d s))) \<le> effectiveMaxEvents (cfg d))
   \<and> ((\<forall>x \<in> set ds. effectiveMaxEvents (cfg x) = N) \<and> length (eventLog s) \<le> N \<longrightarrow>
        length (eventLog (deliverAll rt ds s)) \<le> N)"
proof (intro conjI impI)
  assume h: "(watchMTM (cfg d) \<or> watchDataLayer (cfg d))
      \<and> fst (onMatomoEventDetected rt d s) = None
      \<and> suppressedDuplicates (snd (onMatomoEventDetected rt d s)) = suppressedDuplicates s"
  then have w: "watchMTM (cfg d) \<or> watchDataLayer (cfg d)"
    and ok: "fst (onMatomoEventDetected rt d s) = None"
    and k: "suppressedDuplicates (snd (onMatomoEventDetected rt d s)) = suppressedDuplicates s"
    by simp_all
  show "eventLog (snd (onMatomoEventDetected rt d s))
        = sort_key timestamp
            (drop (Suc (length (eventLog s)) - effectiveMaxEvents (cfg d))
               (eventLog s @ [listenerEventData d]))"
    using w ok k by (rule listener_stored_log(1))
  show "length (eventLog (snd (onMatomoEventDetected rt d s)))
          = min (effectiveMaxEvents (cfg d)) (Suc (length (eventLog s)))"
    using w ok k by (rule listener_stored_log(2))
  show "\<forall>x \<in> set (take (Suc (length (eventLog s)) - effectiveMaxEvents (cfg d)) (eventLog s)).
            expandedStates (snd (onMatomoEventDetected rt d s)) (eventId rt x) = None"
    using w ok k by (rule listener_stored_log(3))
  show "listenerEventData d \<in> set (eventLog (snd (onMatomoEventDetected rt d s)))"
    using w ok k by (rule listener_stored_log(4))
next
  assume "\<not> (watchMTM (cfg d) \<or> watchDataLayer (cfg d))
        \<or> fst (onMatomoEventDetected rt d s) \<noteq> None
        \<or> suppressedDuplicates (snd (onMatomoEventDetected rt d s)) = suppressedDuplicates s + 1"
  then show "eventLog (snd (onMatomoEventDetected rt d s)) = eventLog s"
    by (rule listener_unchanged_log)
next
  show "maxEvents (snd (onMatomoEventDetected rt d s)) = effectiveMaxEvents (cfg d)"
    by (rule listener_maxEvents)
next
  show "effectiveMaxEvents (cfg d) = (if cfg_maxEvents (cfg d) = 0 then 1000 else cfg_maxEvents (cfg d))"
    by (simp add: effectiveMaxEvents_def MAX_EVENTS_def)
next
  assume "length (eventLog s) \<le> effectiveMaxEvents (cfg d)"
  then show "length (eventLog (snd (onMatomoEventDetected rt d s))) \<le> effectiveMaxEvents (cfg d)"
    by (rule listener_bound)
next
  assume "(\<forall>x \<in> set ds. effectiveMaxEvents (cfg x) = N) \<and> length (eventLog s) \<le> N"
  then show "length (eventLog (deliverAll rt ds s)) \<le> N"
    using deliverAll_bound [of ds N s rt] by blast
qed

text \<open>
  With \<^verbatim>\<open>maxEvents\<close> 2 and the events a, b at times 1000 and 1100 in the log: the
  event c at time 1200 is stored and a, the first entry, is removed. A historical event h
  with the timestamp 500 is then stored as well: the first entry b is removed, and h,
  the oldest by timestamp, is kept at the front. A delivery with monitoring off changes
  nothing. The four deliveries in a row leave two events.
\<close>

theorem eventLog_bounded_witness:
  "eventLog (snd (onMatomoEventDetected example_runtime
       (named_delivery (DEFAULT_CONFIG\<lparr>cfg_maxEvents := 2\<rparr>) ''c'' None 1200)
       (deliverAll example_runtime
          [named_delivery (DEFAULT_CONFIG\<lparr>cfg_maxEvents := 2\<rparr>) ''a'' None 1000,
           named_delivery (DEFAULT_CONFIG\<lparr>cfg_maxEvents := 2\<rparr>) ''b'' None 1100] initial_consumer)))
     = [listenerEventData (named_delivery (DEFAULT_CONFIG\<lparr>cfg_maxEvents := 2\<rparr>) ''b'' None 1100),
        listenerEventData (named_delivery (DEFAULT_CONFIG\<lparr>cfg_maxEvents := 2\<rparr>) ''c'' None 1200)]
   \<and> eventLog (snd (onMatomoEventDetected example_runtime
       (named_delivery (DEFAULT_CONFIG\<lparr>cfg_maxEvents := 2\<rparr>) ''h'' (Some 0) 500)
       (deliverAll example_runtime
          [named_delivery (DEFAULT_CONFIG\<lparr>cfg_maxEvents := 2\<rparr>) ''a'' None 1000,
           named_delivery (DEFAULT_CONFIG\<lparr>cfg_maxEvents := 2\<rparr>) ''b'' None 1100,
           named_delivery (DEFAULT_CONFIG\<lparr>cfg_maxEvents := 2\<rparr>) ''c'' None 1200] initial_consumer)))
     = [listenerEventData (named_delivery (DEFAULT_CONFIG\<lparr>cfg_maxEvents := 2\<rparr>) ''h'' (Some 0) 500),
        listenerEventData (named_delivery (DEFAULT_CONFIG\<lparr>cfg_maxEvents := 2\<rparr>) ''c'' None 1200)]
   \<and> eventLog (snd (onMatomoEventDetected example_runtime
       (named_delivery (DEFAULT_CONFIG\<lparr>cfg_maxEvents := 2, watchMTM := False\<rparr>) ''d'' None 1300)
       (deliverAll example_runtime
          [named_delivery (DEFAULT_CONFIG\<lparr>cfg_maxEvents := 2\<rparr>) ''a'' None 1000,
           named_delivery (DEFAULT_CONFIG\<lparr>cfg_maxEvents := 2\<rparr>) ''b'' None 1100] initial_consumer)))
     = [listenerEventData (named_delivery (DEFAULT_CONFIG\<lparr>cfg_maxEvents := 2\<rparr>) ''a'' None 1000),
        listenerEventData (named_delivery (DEFAULT_CONFIG\<lparr>cfg_maxEvents := 2\<rparr>) ''b'' None 1100)]
   \<and> length (eventLog (deliverAll example_runtime
          [named_delivery (DEFAULT_CONFIG\<lparr>cfg_maxEvents := 2\<rparr>) ''a'' None 1000,
           named_delivery (DEFAULT_CONFIG\<lparr>cfg_maxEvents := 2\<rparr>) ''b'' None 1100,
           named_delivery (DEFAULT_CONFIG\<lparr>cfg_maxEvents := 2\<rparr>) ''c'' None 1200,
           named_delivery (DEFAULT_CONFIG\<lparr>cfg_maxEvents := 2\<rparr>) ''h'' (Some 0) 500] initial_consumer))
     \<le> 2"
proof -
  let ?c2 = "DEFAULT_CONFIG\<lparr>cfg_maxEvents := 2\<rparr>"
  let ?a = "named_delivery ?c2 ''a'' None 1000"
  let ?b = "named_delivery ?c2 ''b'' None 1100"
  let ?c = "named_delivery ?c2 ''c'' None 1200"
  let ?h = "named_delivery ?c2 ''h'' (Some 0) 500"
  let ?off = "named_delivery (DEFAULT_CONFIG\<lparr>cfg_maxEvents := 2, watchMTM := False\<rparr>) ''d'' None 1300"
  let ?s2 = "deliverAll example_runtime [?a, ?b] initial_consumer"
  let ?s3 = "deliverAll example_runtime [?a, ?b, ?c] initial_consumer"
  have w: "watchMTM (cfg ?c) \<or> watchDataLayer (cfg ?c)" "watchMTM (cfg ?h) \<or> watchDataLayer (cfg ?h)"
    by (simp_all add: named_delivery_def DEFAULT_CONFIG_def)
  have off: "\<not> (watchMTM (cfg ?off) \<or> watchDataLayer (cfg ?off))"
    by (simp add: named_delivery_def DEFAULT_CONFIG_def)
  have okc: "fst (onMatomoEventDetected example_runtime ?c ?s2) = None" by code_simp
  have kc: "suppressedDuplicates (snd (onMatomoEventDetected example_runtime ?c ?s2))
              = suppressedDuplicates ?s2" by code_simp
  have rc: "sort_key timestamp
              (drop (Suc (length (eventLog ?s2)) - effectiveMaxEvents (cfg ?c))
                 (eventLog ?s2 @ [listenerEventData ?c]))
            = [listenerEventData ?b, listenerEventData ?c]" by code_simp
  have okh: "fst (onMatomoEventDetected example_runtime ?h ?s3) = None" by code_simp
  have kh: "suppressedDuplicates (snd (onMatomoEventDetected example_runtime ?h ?s3))
              = suppressedDuplicates ?s3" by code_simp
  have rh: "sort_key timestamp
              (drop (Suc (length (eventLog ?s3)) - effectiveMaxEvents (cfg ?h))
                 (eventLog ?s3 @ [listenerEventData ?h]))
            = [listenerEventData ?h, listenerEventData ?c]" by code_simp
  have l2: "eventLog ?s2 = [listenerEventData ?a, listenerEventData ?b]" by code_simp
  have all2: "\<forall>x \<in> set [?a, ?b, ?c, ?h]. effectiveMaxEvents (cfg x) = 2"
    by (simp add: named_delivery_def DEFAULT_CONFIG_def effectiveMaxEvents_def)
  have l0: "length (eventLog initial_consumer) \<le> 2" by (simp add: initial_consumer_def)
  from eventLog_bounded [of ?c example_runtime ?s2] w(1) okc kc rc
  have 1: "eventLog (snd (onMatomoEventDetected example_runtime ?c ?s2))
             = [listenerEventData ?b, listenerEventData ?c]" by simp
  from eventLog_bounded [of ?h example_runtime ?s3] w(2) okh kh rh
  have 2: "eventLog (snd (onMatomoEventDetected example_runtime ?h ?s3))
             = [listenerEventData ?h, listenerEventData ?c]" by simp
  from eventLog_bounded [of ?off example_runtime ?s2] off l2
  have 3: "eventLog (snd (onMatomoEventDetected example_runtime ?off ?s2))
             = [listenerEventData ?a, listenerEventData ?b]" by simp
  from eventLog_bounded [of ?a example_runtime initial_consumer "[?a, ?b, ?c, ?h]" 2] all2 l0
  have 4: "length (eventLog (deliverAll example_runtime [?a, ?b, ?c, ?h] initial_consumer)) \<le> 2"
    by blast
  show ?thesis using 1 2 3 4 by simp
qed

subsection \<open>Injected script: global cache\<close>

lemma dispatch_suppressed:
  "isGlobalDuplicate rt (t_check clk) (cleanedEventData h e) s \<Longrightarrow>
     dispatchMatomoEventWithTimestamp rt h clk e ts s = s"
  by (simp add: dispatchMatomoEventWithTimestamp_def)

lemma dispatch_emitted:
  assumes "\<not> isGlobalDuplicate rt (t_check clk) (cleanedEventData h e) s"
  shows "dispatched (dispatchMatomoEventWithTimestamp rt h clk e ts s)
           = dispatched s @ [\<lparr>ev_detail = cleanedEventData h e, ev_customTimestamp = ts\<rparr>]"
    and "globalProcessedEvents (dispatchMatomoEventWithTimestamp rt h clk e ts s)
           = cleanupCache (t_cleanup clk) GLOBAL_EVENTS
               ((globalProcessedEvents s)(eventSignature rt (cleanedEventData h e) \<mapsto> t_mark clk))"
    and "window_mtm (dispatchMatomoEventWithTimestamp rt h clk e ts s) = window_mtm s"
    and "initialScanCompleted (dispatchMatomoEventWithTimestamp rt h clk e ts s) = initialScanCompleted s"
  using assms
  by (simp_all add: dispatchMatomoEventWithTimestamp_def markEventAsProcessed_def Let_def)

lemma dispatch_cache_kept:
  assumes "globalProcessedEvents s k = Some t"
      and "t_check clk - t < GLOBAL_EVENTS"
      and "t_cleanup clk - t \<le> GLOBAL_EVENTS"
  shows "globalProcessedEvents (dispatchMatomoEventWithTimestamp rt h clk e ts s) k = Some t"
proof (cases "isGlobalDuplicate rt (t_check clk) (cleanedEventData h e) s")
  case True
  then show ?thesis using assms(1) by (simp add: dispatch_suppressed)
next
  case False
  then have "eventSignature rt (cleanedEventData h e) \<noteq> k"
    using assms(1,2) by (auto simp add: isGlobalDuplicate_def)
  then show ?thesis
    using assms(1,3) by (simp add: dispatch_emitted(2) [OF False] cleanupCache_def)
qed

lemma dispatchAll_cache_kept:
  assumes "\<forall>x \<in> set xs. t_check (fst x) - t < GLOBAL_EVENTS \<and> t_cleanup (fst x) - t \<le> GLOBAL_EVENTS"
      and "globalProcessedEvents s k = Some t"
  shows "globalProcessedEvents (dispatchAll rt h xs s) k = Some t"
  using assms
proof (induction xs arbitrary: s)
  case Nil
  then show ?case by (simp add: dispatchAll_def)
next
  case (Cons x xs)
  have "globalProcessedEvents
          (dispatchMatomoEventWithTimestamp rt h (fst x) (fst (snd x)) (snd (snd x)) s) k = Some t"
    using Cons.prems by (simp add: dispatch_cache_kept)
  then have "globalProcessedEvents
          (dispatchAll rt h xs
             (dispatchMatomoEventWithTimestamp rt h (fst x) (fst (snd x)) (snd (snd x)) s)) k = Some t"
    using Cons.IH Cons.prems(1) by simp
  then show ?case by (simp add: dispatchAll_def)
qed

text \<open>
  Claim C2. An entry that is no global duplicate passes the gate: it is dispatched and
  its signature is recorded with the clock reading \<open>t_mark\<close>. Any number of other
  entries may pass or be stopped after it. An entry with the same signature that then
  reaches the gate less than 1000 ms after \<open>t_mark\<close> is stopped: the state, and with it
  the list of dispatched events, is unchanged. (All clock readings in between lie in
  the window.)
\<close>

theorem global_cache_window:
  assumes sig: "eventSignature rt (cleanedEventData h e1) = eventSignature rt (cleanedEventData h e2)"
      and first: "\<not> isGlobalDuplicate rt (t_check c1) (cleanedEventData h e1) s"
      and cl1: "t_cleanup c1 - t_mark c1 \<le> GLOBAL_EVENTS"
      and between: "\<forall>x \<in> set xs. t_check (fst x) - t_mark c1 < GLOBAL_EVENTS
                                 \<and> t_cleanup (fst x) - t_mark c1 \<le> GLOBAL_EVENTS"
      and win: "t_check c2 - t_mark c1 < GLOBAL_EVENTS"
  shows "dispatched (dispatchMatomoEventWithTimestamp rt h c1 e1 ts1 s)
           = dispatched s @ [\<lparr>ev_detail = cleanedEventData h e1, ev_customTimestamp = ts1\<rparr>]
         \<and> globalProcessedEvents (dispatchMatomoEventWithTimestamp rt h c1 e1 ts1 s)
              (eventSignature rt (cleanedEventData h e1)) = Some (t_mark c1)
         \<and> dispatchMatomoEventWithTimestamp rt h c2 e2 ts2
              (dispatchAll rt h xs (dispatchMatomoEventWithTimestamp rt h c1 e1 ts1 s))
            = dispatchAll rt h xs (dispatchMatomoEventWithTimestamp rt h c1 e1 ts1 s)"
proof -
  let ?k = "eventSignature rt (cleanedEventData h e1)"
  let ?s1 = "dispatchMatomoEventWithTimestamp rt h c1 e1 ts1 s"
  let ?s2 = "dispatchAll rt h xs ?s1"
  have r: "globalProcessedEvents ?s1 ?k = Some (t_mark c1)"
    using cl1 by (simp add: dispatch_emitted(2) [OF first] cleanupCache_def)
  have "globalProcessedEvents ?s2 ?k = Some (t_mark c1)"
    using between r by (rule dispatchAll_cache_kept)
  then have "isGlobalDuplicate rt (t_check c2) (cleanedEventData h e2) ?s2"
    using sig win by (simp add: isGlobalDuplicate_def)
  then have "dispatchMatomoEventWithTimestamp rt h c2 e2 ts2 ?s2 = ?s2"
    by (rule dispatch_suppressed)
  then show ?thesis using r dispatch_emitted(1) [OF first] by simp
qed

text \<open>
  At start the backlog entry \<^verbatim>\<open>{event: 'click'}\<close> is scanned at time 100000 and
  dispatched as a historical event. 200 ms later an equal object is pushed and reaches
  the gate as a live event: source and metadata differ, the signature does not, and
  nothing more is dispatched.
\<close>

theorem global_cache_window_witness:
  "dispatched
     (dispatchMatomoEvent example_runtime example_host
        \<lparr>t_check = 100200, t_mark = 100200, t_cleanup = 100200\<rparr> 100200
        (enrich example_host
           (createMTMEventData ''_mtm''
              (plain_entry (Obj [(''event'', Str ''click''), (''__mtm_processed'', Bool True)])) (Some 1)))
        (dispatchMatomoEventWithTimestamp example_runtime example_host
           \<lparr>t_check = 100000, t_mark = 100000, t_cleanup = 100000\<rparr>
           (enrich example_host
              (timestampedEventData ''_mtm'' (plain_entry (Obj [(''event'', Str ''click'')])) True (Some 0)))
           95000 initial_injected))
   = [\<lparr>ev_detail = cleanedEventData example_host
                    (enrich example_host
                       (timestampedEventData ''_mtm'' (plain_entry (Obj [(''event'', Str ''click'')]))
                          True (Some 0))),
       ev_customTimestamp = 95000\<rparr>]"
proof -
  let ?c1 = "\<lparr>t_check = 100000, t_mark = 100000, t_cleanup = 100000\<rparr>"
  let ?c2 = "\<lparr>t_check = 100200, t_mark = 100200, t_cleanup = 100200\<rparr>"
  let ?e1 = "enrich example_host
               (timestampedEventData ''_mtm'' (plain_entry (Obj [(''event'', Str ''click'')])) True (Some 0))"
  let ?e2 = "enrich example_host
               (createMTMEventData ''_mtm''
                  (plain_entry (Obj [(''event'', Str ''click''), (''__mtm_processed'', Bool True)])) (Some 1))"
  have sig: "eventSignature example_runtime (cleanedEventData example_host ?e1)
               = eventSignature example_runtime (cleanedEventData example_host ?e2)"
    by code_simp
  have first: "\<not> isGlobalDuplicate example_runtime (t_check ?c1)
                    (cleanedEventData example_host ?e1) initial_injected"
    by (simp add: isGlobalDuplicate_def initial_injected_def)
  have cl1: "t_cleanup ?c1 - t_mark ?c1 \<le> GLOBAL_EVENTS" by (simp add: GLOBAL_EVENTS_def)
  have between: "\<forall>x \<in> set []. t_check (fst x) - t_mark ?c1 < GLOBAL_EVENTS
                                 \<and> t_cleanup (fst x) - t_mark ?c1 \<le> GLOBAL_EVENTS"
    by simp
  have win: "t_check ?c2 - t_mark ?c1 < GLOBAL_EVENTS" by (simp add: GLOBAL_EVENTS_def)
  from global_cache_window [OF sig first cl1 between win, of 95000 100200]
  show ?thesis by (simp add: dispatchAll_def dispatchMatomoEvent_def initial_injected_def)
qed

subsection \<open>Injected script: the wrapped push\<close>





subsection \<open>Injected script: backlog scan\<close>









end
